theory Spec2Isabelle
  imports Complex_Main "HOL-Library.Multiset"
begin

section \<open>Data model (shared/schema.ts)\<close>

text \<open>
  The rows of the tables \<open>orders\<close>, \<open>trades\<close> and \<open>positions\<close>. The columns \<open>side\<close>,
  \<open>type\<close> and \<open>status\<close> are strings in the source that only ever hold the values listed in
  the schema comments; they are datatypes here. The decimal columns (and the values of
  decimal.js built from them) are exact rationals: decimal.js adds, subtracts and compares
  them exactly at the sizes the columns allow. \<open>createdAt\<close> is the timestamp in milliseconds
  (\<open>new Date(x).getTime()\<close>). The columns \<open>updatedAt\<close>, and the generated \<open>id\<close> and
  \<open>createdAt\<close> of trades and positions, are read by no code of the engine and are left out.
\<close>

datatype side = YES | NO

datatype order_type = MARKET | LIMIT | IOC | FOK

datatype order_status = PENDING | PARTIAL | FILLED | CANCELLED

record Order =
  oid :: string
  marketId :: string
  userId :: string
  side :: side
  otype :: order_type
  price :: rat
  osize :: rat
  filled :: rat
  status :: order_status
  createdAt :: int

record Trade =
  t_marketId :: string
  buyOrderId :: string
  sellOrderId :: string
  buyerId :: string
  sellerId :: string
  t_side :: side
  t_price :: rat
  t_size :: rat

text \<open>
  The position upsert computes with JavaScript numbers (\<open>parseFloat\<close>, \<open>+\<close>, \<open>*\<close>, \<open>/\<close>,
  \<open>toString\<close>), so a number is a double, \<open>NaN\<close> or an infinity. A numeric string, and the
  content of a \<open>numeric\<close> column (which holds a decimal or \<open>NaN\<close>), is modelled by the number
  it denotes.
\<close>

datatype jsnumber = Num rat | NaN | PosInfinity | NegInfinity

record Position =
  p_marketId :: string
  p_userId :: string
  p_side :: side
  shares :: jsnumber
  avgPrice :: jsnumber

record OrderBookEntry =
  lprice :: rat
  lsize :: rat
  orders :: "Order list"

record MatchResult =
  r_order :: "Order option"
  r_trades :: "Trade list"
  rejected :: "bool option"
  rejectReason :: "string option"

text \<open>
  \<open>InsertOrder\<close>: what \<open>insertOrderSchema\<close> leaves of an order (\<open>id\<close>, \<open>filled\<close>, \<open>status\<close>,
  \<open>createdAt\<close> and \<open>updatedAt\<close> are omitted and come from the column defaults).
\<close>

record InsertOrder =
  i_marketId :: string
  i_userId :: string
  i_side :: side
  i_type :: order_type
  i_price :: rat
  i_size :: rat

datatype js_error = TypeError | DatabaseError

section \<open>JavaScript numbers and numeric columns\<close>

text \<open>
  Doubles are computed on fractions \<open>(n, d)\<close> of integers with \<open>n, d > 0\<close>. \<open>ndigits b a\<close> is
  the number of digits of \<open>a\<close> in base \<open>b\<close>, \<open>scale b k q\<close> is \<open>q * b ^ k\<close>, and \<open>ilog b q\<close> is the
  integer part of the logarithm of \<open>q\<close> to base \<open>b\<close>.
\<close>

function ndigits :: "int \<Rightarrow> int \<Rightarrow> int" where
  "ndigits b a = (if a \<le> 0 \<or> b \<le> 1 then 0 else 1 + ndigits b (a div b))"
  by pat_completeness auto
termination
  by (relation "measure (\<lambda>(b, a). nat a)") (auto simp: int_div_less_self)

declare ndigits.simps [simp del]

function ipow :: "int \<Rightarrow> int \<Rightarrow> int" where
  "ipow b k = (if k \<le> 0 then 1 else b * ipow b (k - 1))"
  by pat_completeness auto
termination
  by (relation "measure (\<lambda>(b, k). nat k)") auto

declare ipow.simps [simp del]

definition scale :: "int \<Rightarrow> int \<Rightarrow> int \<times> int \<Rightarrow> int \<times> int" where
  "scale b k q = (case q of (n, d) \<Rightarrow> if k \<ge> 0 then (n * ipow b k, d) else (n, d * ipow b (- k)))"

definition frac_less :: "int \<times> int \<Rightarrow> int \<times> int \<Rightarrow> bool" where
  "frac_less p q = (case p of (a, b) \<Rightarrow> case q of (c, d) \<Rightarrow> a * d < c * b)"

definition frac_eq :: "int \<times> int \<Rightarrow> int \<times> int \<Rightarrow> bool" where
  "frac_eq p q = (case p of (a, b) \<Rightarrow> case q of (c, d) \<Rightarrow> a * d = c * b)"

definition frac_val :: "int \<times> int \<Rightarrow> rat" where
  "frac_val q = (case q of (n, d) \<Rightarrow> of_int n / of_int d)"

definition ilog :: "int \<Rightarrow> int \<times> int \<Rightarrow> int" where
  "ilog b q = (case q of (n, d) \<Rightarrow>
     (let g = ndigits b n - ndigits b d
      in if frac_less (scale b (- g) q) (1, 1) then g - 1 else g))"

definition round_half_even :: "int \<times> int \<Rightarrow> int" where
  "round_half_even q = (case q of (n, d) \<Rightarrow>
     (let f = n div d; r = n mod d
      in if 2 * r < d then f else if d < 2 * r then f + 1 else if even f then f else f + 1))"

text \<open>
  \<open>fl x\<close> is the double nearest to \<open>x\<close>, ties to the even significand of 53 bits (IEEE 754
  round-to-nearest). The exponent range is not modelled: the numbers of the upsert are built
  from column values, far from overflow and from the subnormal range. The model has one
  zero; the sign of a zero decides nothing below (see \<open>js_div\<close>).
\<close>

definition fl_pos :: "int \<times> int \<Rightarrow> int \<times> int" where
  "fl_pos q = (let e = ilog 2 q - 52 in scale 2 e (round_half_even (scale 2 (- e) q), 1))"

definition fl :: "rat \<Rightarrow> rat" where
  "fl x = (case quotient_of x of (n, d) \<Rightarrow>
     if n = 0 then 0 else if n > 0 then frac_val (fl_pos (n, d)) else - frac_val (fl_pos (- n, d)))"

text \<open>
  \<open>Number.prototype.toString\<close> prints the decimal with the fewest significant digits \<open>k\<close> that
  reads back as the same double, the closest such decimal if there are several, the even one
  on a tie (ECMA-262, Number::toString). \<open>shortest_from\<close> tries \<open>k\<close>, \<open>k + 1\<close>, ... on the two
  decimals of \<open>k\<close> digits around the double; 17 digits always suffice.
\<close>

fun shortest_from :: "nat \<Rightarrow> int \<Rightarrow> int \<times> int \<Rightarrow> int \<times> int" where
  "shortest_from 0 k a = a"
| "shortest_from (Suc fuel) k a =
     (let j = ilog 10 a + 1 - k;
          s = (case scale 10 (- j) a of (n, d) \<Rightarrow> n div d);
          lo = scale 10 j (s, 1);
          hi = scale 10 j (s + 1, 1);
          mid = scale 10 j (2 * s + 1, 2)
      in if frac_eq (fl_pos lo) a \<and> frac_eq (fl_pos hi) a then
           (if frac_less a mid then lo else if frac_less mid a then hi else if even s then lo else hi)
         else if frac_eq (fl_pos lo) a then lo
         else if frac_eq (fl_pos hi) a then hi
         else shortest_from fuel (k + 1) a)"

definition shortest :: "rat \<Rightarrow> rat" where
  "shortest x = (case quotient_of x of (n, d) \<Rightarrow>
     if n = 0 then 0 else if n > 0 then frac_val (shortest_from 17 1 (n, d))
     else - frac_val (shortest_from 17 1 (- n, d)))"

text \<open>
  \<open>parseFloat\<close> of a numeric string and \<open>toString\<close> of a number (\<open>'NaN'\<close>, \<open>'Infinity'\<close> and
  \<open>'-Infinity'\<close> are read and printed as themselves).
\<close>

definition parseFloat :: "jsnumber \<Rightarrow> jsnumber" where
  "parseFloat s = (case s of Num r \<Rightarrow> Num (fl r) | _ \<Rightarrow> s)"

definition toString :: "jsnumber \<Rightarrow> jsnumber" where
  "toString x = (case x of Num d \<Rightarrow> Num (shortest d) | _ \<Rightarrow> x)"

definition js_sign :: "jsnumber \<Rightarrow> int" where
  "js_sign x = (case x of Num a \<Rightarrow> (if a < 0 then - 1 else if a = 0 then 0 else 1)
                | NaN \<Rightarrow> 0 | PosInfinity \<Rightarrow> 1 | NegInfinity \<Rightarrow> - 1)"

definition js_inf :: "int \<Rightarrow> jsnumber" where
  "js_inf s = (if s = 0 then NaN else if s > 0 then PosInfinity else NegInfinity)"

fun js_add :: "jsnumber \<Rightarrow> jsnumber \<Rightarrow> jsnumber" where
  "js_add (Num a) (Num b) = Num (fl (a + b))"
| "js_add NaN y = NaN"
| "js_add x NaN = NaN"
| "js_add (Num a) y = y"
| "js_add x (Num b) = x"
| "js_add x y = (if x = y then x else NaN)"

fun js_mul :: "jsnumber \<Rightarrow> jsnumber \<Rightarrow> jsnumber" where
  "js_mul (Num a) (Num b) = Num (fl (a * b))"
| "js_mul NaN y = NaN"
| "js_mul x NaN = NaN"
| "js_mul x y = js_inf (js_sign x * js_sign y)"

text \<open>
  JavaScript's \<open>/\<close> never throws: \<open>0 / 0\<close> is \<open>NaN\<close> and any other number over zero is an
  infinity. The zero divisor is taken as \<open>+0\<close>: the only divisor of the program is a sum
  \<open>parseFloat(a) + parseFloat(b)\<close> with \<open>a\<close> read from a numeric column, which never prints
  \<open>-0\<close>, and such a sum is \<open>-0\<close> only when both summands are.
\<close>

fun js_div :: "jsnumber \<Rightarrow> jsnumber \<Rightarrow> jsnumber" where
  "js_div (Num a) (Num b) = (if b = 0 then js_inf (js_sign (Num a)) else Num (fl (a / b)))"
| "js_div NaN y = NaN"
| "js_div x NaN = NaN"
| "js_div (Num a) y = Num 0"
| "js_div x (Num b) = (if b < 0 then js_inf (- js_sign x) else x)"
| "js_div x y = NaN"

text \<open>
  A column \<open>decimal(precision, scale)\<close> of PostgreSQL. It stores \<open>NaN\<close> as it is, rounds a
  decimal to \<open>scale\<close> digits after the point, half away from zero, and refuses the statement
  (numeric field overflow) when the rounded value needs more than \<open>precision - scale\<close> digits
  before the point, and when the value is an infinity.
\<close>

definition round_away :: "rat \<Rightarrow> int" where
  "round_away q = (if q \<ge> 0 then \<lfloor>q + 1 / 2\<rfloor> else - \<lfloor>- q + 1 / 2\<rfloor>)"

definition numeric_col :: "int \<Rightarrow> int \<Rightarrow> jsnumber \<Rightarrow> js_error + jsnumber" where
  "numeric_col precision scl x =
     (case x of
        Num r \<Rightarrow> (let v = round_away (r * of_int (ipow 10 scl))
                  in if \<bar>v\<bar> \<ge> ipow 10 precision then Inl DatabaseError
                     else Inr (Num (of_int v / of_int (ipow 10 scl))))
      | NaN \<Rightarrow> Inr NaN
      | _ \<Rightarrow> Inl DatabaseError)"

section \<open>Persistence (server/storage.ts, class DatabaseStorage)\<close>

text \<open>
  The database is the list of rows of each table. The rows of \<open>markets\<close> are reduced to
  \<open>(id, yesPrice, noPrice)\<close>. There is no transaction in the source: every statement that
  succeeded stays when a later one is refused.

  Of the constraints of the schema the model has the primary key of \<open>orders\<close> and the
  numeric columns of \<open>positions\<close> and of a new order. Foreign keys are not modelled, nor are
  the numeric columns at the other writes: the engine writes there prices and sizes it read
  from such columns, and their sums, differences and minima, which the columns hold
  unchanged.
\<close>

record storage =
  orders_tbl :: "Order list"
  trades_tbl :: "Trade list"
  positions_tbl :: "Position list"
  markets_tbl :: "(string \<times> rat \<times> rat) list"

definition updateMarketPrices_db :: "string \<Rightarrow> rat \<Rightarrow> rat \<Rightarrow> storage \<Rightarrow> storage" where
  "updateMarketPrices_db mid yesPrice noPrice st =
     st\<lparr>markets_tbl := map (\<lambda>(i, y, n). if i = mid then (i, yesPrice, noPrice) else (i, y, n))
                           (markets_tbl st)\<rparr>"

text \<open>
  \<open>orderBy(desc(orders.createdAt))\<close>: the newest row first. SQL leaves the order of rows
  with equal timestamps open; the model keeps their table order.
\<close>

definition getActiveMarketOrders :: "string \<Rightarrow> storage \<Rightarrow> Order list" where
  "getActiveMarketOrders mid st =
     sort_key (\<lambda>r. - createdAt r)
       (filter (\<lambda>r. marketId r = mid \<and> status r = PENDING) (orders_tbl st))"

text \<open>
  \<open>createOrder\<close> inserts the row with the column defaults: \<open>filled\<close> 0, \<open>status\<close> PENDING, and
  an \<open>id\<close> and a \<open>createdAt\<close> that the database generates (\<open>gen_random_uuid()\<close>, \<open>now()\<close>),
  which are parameters here. The insert is refused when the id is taken (primary key) or a
  numeric column refuses its value; the returned row holds the values as the columns
  rounded them.
\<close>

definition createOrder :: "string \<Rightarrow> int \<Rightarrow> InsertOrder \<Rightarrow> storage \<Rightarrow> (js_error + Order) \<times> storage" where
  "createOrder newId now insertOrder st =
     (if newId \<in> set (map oid (orders_tbl st)) then (Inl DatabaseError, st)
      else (case (numeric_col 5 4 (Num (i_price insertOrder)), numeric_col 18 6 (Num (i_size insertOrder))) of
              (Inr (Num p), Inr (Num sz)) \<Rightarrow>
                (let order = \<lparr>oid = newId, marketId = i_marketId insertOrder, userId = i_userId insertOrder,
                              side = i_side insertOrder, otype = i_type insertOrder, price = p, osize = sz,
                              filled = 0, status = PENDING, createdAt = now\<rparr>
                 in (Inr order, st\<lparr>orders_tbl := orders_tbl st @ [order]\<rparr>))
            | _ \<Rightarrow> (Inl DatabaseError, st)))"

definition updateOrderFilled :: "string \<Rightarrow> rat \<Rightarrow> storage \<Rightarrow> storage" where
  "updateOrderFilled orderId f st =
     st\<lparr>orders_tbl := map (\<lambda>r. if oid r = orderId then r\<lparr>filled := f\<rparr> else r) (orders_tbl st)\<rparr>"

text \<open>
  \<open>const [order] = await db.update(...).returning(); return order\<close>: the first updated row,
  \<open>undefined\<close> (here \<open>None\<close>) when no row has the id.
\<close>

definition updateOrderStatus :: "string \<Rightarrow> order_status \<Rightarrow> storage \<Rightarrow> Order option \<times> storage" where
  "updateOrderStatus orderId s st =
     (let rows = map (\<lambda>r. if oid r = orderId then r\<lparr>status := s\<rparr> else r) (orders_tbl st)
      in (find (\<lambda>r. oid r = orderId) rows, st\<lparr>orders_tbl := rows\<rparr>))"

definition createTrade :: "Trade \<Rightarrow> storage \<Rightarrow> Trade \<times> storage" where
  "createTrade insertTrade st = (insertTrade, st\<lparr>trades_tbl := trades_tbl st @ [insertTrade]\<rparr>)"

text \<open>
  The update branch of \<open>updateOrCreatePosition\<close>: the strings \<open>newShares\<close> and \<open>newAvgPrice\<close>
  computed for an existing position from the strings \<open>shares\<close> and \<open>avgPrice\<close> of the call.
\<close>

definition newShares :: "Position \<Rightarrow> rat \<Rightarrow> jsnumber" where
  "newShares existingPosition sh =
     toString (js_add (parseFloat (shares existingPosition)) (parseFloat (Num sh)))"

definition newAvgPrice :: "Position \<Rightarrow> rat \<Rightarrow> rat \<Rightarrow> jsnumber" where
  "newAvgPrice existingPosition sh avg =
     toString (js_div
       (js_add (js_mul (parseFloat (shares existingPosition)) (parseFloat (avgPrice existingPosition)))
               (js_mul (parseFloat (Num sh)) (parseFloat (Num avg))))
       (parseFloat (newShares existingPosition sh)))"

definition same_position :: "string \<Rightarrow> string \<Rightarrow> side \<Rightarrow> Position \<Rightarrow> bool" where
  "same_position mid uid sd p \<longleftrightarrow> p_marketId p = mid \<and> p_userId p = uid \<and> p_side p = sd"

text \<open>
  \<open>const [existingPosition] = await db.select()...\<close> takes the first matching row; the
  update is by the row's id, so it replaces that row only.
\<close>

fun update_first_position :: "string \<Rightarrow> string \<Rightarrow> side \<Rightarrow> Position \<Rightarrow> Position list \<Rightarrow> Position list" where
  "update_first_position mid uid sd updatedPosition [] = []"
| "update_first_position mid uid sd updatedPosition (p # ps) =
     (if same_position mid uid sd p then updatedPosition # ps
      else p # update_first_position mid uid sd updatedPosition ps)"

text \<open>
  Both branches write \<open>shares\<close> to a \<open>decimal(18, 6)\<close> and \<open>avgPrice\<close> to a \<open>decimal(5, 4)\<close>
  column in one statement. When a column refuses its value the statement writes nothing and
  the call throws.
\<close>

definition updateOrCreatePosition ::
  "string \<Rightarrow> string \<Rightarrow> side \<Rightarrow> rat \<Rightarrow> rat \<Rightarrow> storage \<Rightarrow> (js_error + Position) \<times> storage" where
  "updateOrCreatePosition mid uid sd sh avg st =
     (case find (same_position mid uid sd) (positions_tbl st) of
        Some existingPosition \<Rightarrow>
          (case (numeric_col 18 6 (newShares existingPosition sh),
                 numeric_col 5 4 (newAvgPrice existingPosition sh avg)) of
             (Inr s, Inr a) \<Rightarrow>
               (let updatedPosition = existingPosition\<lparr>shares := s, avgPrice := a\<rparr>
                in (Inr updatedPosition,
                    st\<lparr>positions_tbl := update_first_position mid uid sd updatedPosition (positions_tbl st)\<rparr>))
           | _ \<Rightarrow> (Inl DatabaseError, st))
      | None \<Rightarrow>
          (case (numeric_col 18 6 (Num sh), numeric_col 5 4 (Num avg)) of
             (Inr s, Inr a) \<Rightarrow>
               (let newPosition = \<lparr>p_marketId = mid, p_userId = uid, p_side = sd, shares = s, avgPrice = a\<rparr>
                in (Inr newPosition, st\<lparr>positions_tbl := positions_tbl st @ [newPosition]\<rparr>))
           | _ \<Rightarrow> (Inl DatabaseError, st)))"

section \<open>The matching engine (server/services/matching-engine.ts, class MatchingEngine)\<close>

text \<open>
  The source holds two revisions of the class. The model is of the later one, which has the
  IOC and FOK policies and tracks the cumulative fill, and which
  tests/matching-engine.test.ts exercises.

  The engine's state is its two maps from a market id to that market's price levels. A
  missing key reads as the empty book (\<open>this.yesOrderBook.get(marketId) || []\<close>).
\<close>

record engine =
  yesOrderBook :: "string \<rightharpoonup> OrderBookEntry list"
  noOrderBook :: "string \<rightharpoonup> OrderBookEntry list"

definition opposite :: "side \<Rightarrow> side" where
  "opposite sd = (if sd = YES then NO else YES)"

definition book_map :: "side \<Rightarrow> engine \<Rightarrow> (string \<rightharpoonup> OrderBookEntry list)" where
  "book_map sd e = (if sd = YES then yesOrderBook e else noOrderBook e)"

definition get_book :: "side \<Rightarrow> string \<Rightarrow> engine \<Rightarrow> OrderBookEntry list" where
  "get_book sd mid e = (case book_map sd e mid of None \<Rightarrow> [] | Some b \<Rightarrow> b)"

definition set_book :: "side \<Rightarrow> string \<Rightarrow> OrderBookEntry list \<Rightarrow> engine \<Rightarrow> engine" where
  "set_book sd mid b e =
     (if sd = YES then e\<lparr>yesOrderBook := (yesOrderBook e)(mid \<mapsto> b)\<rparr>
      else e\<lparr>noOrderBook := (noOrderBook e)(mid \<mapsto> b)\<rparr>)"

text \<open>
  What the code does to arrays and objects it shares with the stored book (sorting a queue in
  place, assigning \<open>oppositeOrder.filled\<close>) changes the book that is stored under the key, and
  changes nothing when the key is missing (the \<open>[]\<close> of \<open>|| []\<close> is a fresh array).
\<close>

definition mutate_book :: "side \<Rightarrow> string \<Rightarrow> OrderBookEntry list \<Rightarrow> engine \<Rightarrow> engine" where
  "mutate_book sd mid b e = (case book_map sd e mid of None \<Rightarrow> e | Some _ \<Rightarrow> set_book sd mid b e)"

subsection \<open>addToOrderBook\<close>

text \<open>
  \<open>book.sort\<close> with the comparator \<open>b.price - a.price\<close> (YES, descending) or
  \<open>a.price - b.price\<close> (NO, ascending); the sort is stable.
\<close>

definition sort_book :: "side \<Rightarrow> OrderBookEntry list \<Rightarrow> OrderBookEntry list" where
  "sort_book sd book = (if sd = YES then sort_key (\<lambda>l. - lprice l) book else sort_key lprice book)"

text \<open>
  \<open>level.orders.push(order); level.size = level.size.plus(size - filled)\<close> on the level that
  \<open>book.find\<close> returned (the first one with the price) or that was just created.
\<close>

fun push_order :: "Order \<Rightarrow> OrderBookEntry list \<Rightarrow> OrderBookEntry list" where
  "push_order ord [] = []"
| "push_order ord (l # ls) =
     (if lprice l = price ord
      then l\<lparr>lsize := lsize l + (osize ord - filled ord), orders := orders l @ [ord]\<rparr> # ls
      else l # push_order ord ls)"

definition insert_level :: "Order \<Rightarrow> OrderBookEntry list \<Rightarrow> OrderBookEntry list" where
  "insert_level ord book =
     (case find (\<lambda>l. lprice l = price ord) book of
        Some level \<Rightarrow> book
      | None \<Rightarrow> sort_book (side ord) (book @ [\<lparr>lprice = price ord, lsize = 0, orders = []\<rparr>]))"

definition addToOrderBook :: "Order \<Rightarrow> engine \<Rightarrow> engine" where
  "addToOrderBook ord e =
     (let book = get_book (side ord) (marketId ord) e
      in set_book (side ord) (marketId ord) (push_order ord (insert_level ord book)) e)"

subsection \<open>loadOrderBook, updateMarketPrices, getOrderBook\<close>

definition loadOrderBook :: "string \<Rightarrow> engine \<times> storage \<Rightarrow> engine \<times> storage" where
  "loadOrderBook mid w =
     (case w of (e, st) \<Rightarrow> (foldl (\<lambda>e' ord. addToOrderBook ord e') e (getActiveMarketOrders mid st), st))"

definition top_price :: "OrderBookEntry list \<Rightarrow> rat" where
  "top_price book = (case book of [] \<Rightarrow> 1 / 2 | l # _ \<Rightarrow> lprice l)"

definition updateMarketPrices :: "string \<Rightarrow> engine \<Rightarrow> storage \<Rightarrow> storage" where
  "updateMarketPrices mid e st =
     updateMarketPrices_db mid (top_price (get_book YES mid e)) (top_price (get_book NO mid e)) st"


subsection \<open>getOrderBookWithPrioritySort\<close>

text \<open>
  \<open>level.orders.sort(...)\<close> sorts the queue of the stored level in place (by creation time,
  stably) and the returned levels are copies that share those queues: the function returns
  the sorted book and leaves the stored book sorted in the same way.
\<close>

definition time_sort :: "OrderBookEntry \<Rightarrow> OrderBookEntry" where
  "time_sort l = l\<lparr>orders := sort_key createdAt (orders l)\<rparr>"

definition getOrderBookWithPrioritySort :: "string \<Rightarrow> side \<Rightarrow> engine \<Rightarrow> OrderBookEntry list \<times> engine" where
  "getOrderBookWithPrioritySort mid sd e =
     (let book = map time_sort (get_book sd mid e) in (book, mutate_book sd mid book e))"

subsection \<open>executeTrade and updatePositions\<close>

text \<open>
  An \<open>await\<close> whose call throws ends the function with that error; what was written before
  stays written. So the functions return the error or the result, and the database in
  either case.
\<close>

definition updatePositions :: "Trade \<Rightarrow> storage \<Rightarrow> (js_error + unit) \<times> storage" where
  "updatePositions t st =
     (case updateOrCreatePosition (t_marketId t) (buyerId t) (t_side t) (t_size t) (t_price t) st of
        (Inl err, st1) \<Rightarrow> (Inl err, st1)
      | (Inr _, st1) \<Rightarrow>
          (let oppositeSide = (if t_side t = YES then NO else YES)
           in case updateOrCreatePosition (t_marketId t) (sellerId t) oppositeSide (- t_size t) (t_price t) st1 of
                (Inl err, st2) \<Rightarrow> (Inl err, st2)
              | (Inr _, st2) \<Rightarrow> (Inr (), st2)))"

definition tradeData :: "Order \<Rightarrow> Order \<Rightarrow> rat \<Rightarrow> rat \<Rightarrow> Trade" where
  "tradeData buyOrder sellOrder sz p =
     \<lparr>t_marketId = marketId buyOrder,
      buyOrderId = (if side buyOrder = YES then oid buyOrder else oid sellOrder),
      sellOrderId = (if side buyOrder = YES then oid sellOrder else oid buyOrder),
      buyerId = (if side buyOrder = YES then userId buyOrder else userId sellOrder),
      sellerId = (if side buyOrder = YES then userId sellOrder else userId buyOrder),
      t_side = side buyOrder, t_price = p, t_size = sz\<rparr>"

definition executeTrade :: "Order \<Rightarrow> Order \<Rightarrow> rat \<Rightarrow> rat \<Rightarrow> storage \<Rightarrow> (js_error + Trade) \<times> storage" where
  "executeTrade buyOrder sellOrder sz p st =
     (let (t, st1) = createTrade (tradeData buyOrder sellOrder sz p) st
      in case updatePositions t st1 of
           (Inl err, st2) \<Rightarrow> (Inl err, st2)
         | (Inr _, st2) \<Rightarrow> (Inr t, st2))"

subsection \<open>The matching loops\<close>

text \<open>
  The variables of the loops: the two counters, the trade list and the database, and
  \<open>thrown\<close>, the error with which \<open>executeTrade\<close> has ended the function, if it has.
\<close>

record match_state =
  remainingSize :: rat
  orderCumulativeFilled :: rat
  trades :: "Trade list"
  store :: storage
  thrown :: "js_error option"

text \<open>
  The body of the inner loop, the same text in \<open>processLimitTypeOrder\<close> and
  \<open>processMarketOrder\<close>, after its \<open>break\<close> test: it returns the resting order (its \<open>filled\<close>
  assigned when a trade was made) and the new values of the variables. When \<open>executeTrade\<close>
  throws, nothing after it in the body is executed.
\<close>

definition match_one :: "Order \<Rightarrow> rat \<Rightarrow> Order \<Rightarrow> match_state \<Rightarrow> Order \<times> match_state" where
  "match_one ord p oppositeOrder s =
     (let availableSize = osize oppositeOrder - filled oppositeOrder;
          matchSize = min (remainingSize s) availableSize
      in if matchSize > 0 then
           (case executeTrade ord oppositeOrder matchSize p (store s) of
              (Inl err, st1) \<Rightarrow> (oppositeOrder, s\<lparr>store := st1, thrown := Some err\<rparr>)
            | (Inr t, st1) \<Rightarrow>
                (let cum = orderCumulativeFilled s + matchSize;
                     opp = oppositeOrder\<lparr>filled := filled oppositeOrder + matchSize\<rparr>;
                     st2 = updateOrderFilled (oid ord) cum st1;
                     st3 = updateOrderFilled (oid opp) (filled opp) st2;
                     st4 = (if osize opp = filled opp then snd (updateOrderStatus (oid opp) FILLED st3) else st3)
                 in (opp, \<lparr>remainingSize = remainingSize s - matchSize, orderCumulativeFilled = cum,
                           trades = trades s @ [t], store = st4, thrown = None\<rparr>)))
         else (oppositeOrder, s))"

text \<open>
  The loops. An error leaves them at once: every iteration starts by looking at \<open>thrown\<close>,
  before the \<open>break\<close> tests of the source.
\<close>

fun match_queue :: "Order \<Rightarrow> rat \<Rightarrow> Order list \<Rightarrow> match_state \<Rightarrow> Order list \<times> match_state" where
  "match_queue ord p [] s = ([], s)"
| "match_queue ord p (oppositeOrder # rest) s =
     (if thrown s \<noteq> None then (oppositeOrder # rest, s)
      else if remainingSize s = 0 then (oppositeOrder # rest, s)
      else (let (opp, s1) = match_one ord p oppositeOrder s;
                (rest', s2) = match_queue ord p rest s1
            in (opp # rest', s2)))"

definition canMatch :: "Order \<Rightarrow> OrderBookEntry \<Rightarrow> bool" where
  "canMatch ord l = (if side ord = YES then price ord \<ge> lprice l else price ord \<le> lprice l)"

fun limit_levels :: "Order \<Rightarrow> OrderBookEntry list \<Rightarrow> match_state \<Rightarrow> OrderBookEntry list \<times> match_state" where
  "limit_levels ord [] s = ([], s)"
| "limit_levels ord (l # ls) s =
     (if thrown s \<noteq> None then (l # ls, s)
      else if remainingSize s = 0 then (l # ls, s)
      else if \<not> canMatch ord l then (l # ls, s)
      else (let (q, s1) = match_queue ord (lprice l) (orders l) s;
                (ls', s2) = limit_levels ord ls s1
            in (l\<lparr>orders := q\<rparr> # ls', s2)))"

fun market_levels :: "Order \<Rightarrow> OrderBookEntry list \<Rightarrow> match_state \<Rightarrow> OrderBookEntry list \<times> match_state" where
  "market_levels ord [] s = ([], s)"
| "market_levels ord (l # ls) s =
     (if thrown s \<noteq> None then (l # ls, s)
      else if remainingSize s = 0 then (l # ls, s)
      else (let (q, s1) = match_queue ord (lprice l) (orders l) s;
                (ls', s2) = market_levels ord ls s1
            in (l\<lparr>orders := q\<rparr> # ls', s2)))"

text \<open>
  Both functions return the opposite book as the loop leaves it and the final variables
  (the source returns \<open>remainingSize\<close>, or throws, and has changed the rest in place).
\<close>

definition processLimitTypeOrder ::
  "Order \<Rightarrow> OrderBookEntry list \<Rightarrow> rat \<Rightarrow> Trade list \<Rightarrow> storage \<Rightarrow> OrderBookEntry list \<times> match_state" where
  "processLimitTypeOrder ord oppositeBook rem ts st =
     limit_levels ord oppositeBook
       \<lparr>remainingSize = rem, orderCumulativeFilled = filled ord, trades = ts, store = st, thrown = None\<rparr>"

definition processMarketOrder ::
  "Order \<Rightarrow> OrderBookEntry list \<Rightarrow> rat \<Rightarrow> Trade list \<Rightarrow> storage \<Rightarrow> OrderBookEntry list \<times> match_state" where
  "processMarketOrder ord oppositeBook rem ts st =
     market_levels ord oppositeBook
       \<lparr>remainingSize = rem, orderCumulativeFilled = filled ord, trades = ts, store = st, thrown = None\<rparr>"

subsection \<open>canFillOrderCompletely\<close>

text \<open>
  The inner loop returns \<open>Inl True\<close> when the function returns \<open>true\<close> from inside it, and
  \<open>Inr availableSize\<close> when the queue is exhausted.
\<close>

fun fill_queue :: "Order \<Rightarrow> Order list \<Rightarrow> rat \<Rightarrow> bool + rat" where
  "fill_queue ord [] availableSize = Inr availableSize"
| "fill_queue ord (oppositeOrder # rest) availableSize =
     (let orderSize = osize oppositeOrder - filled oppositeOrder;
          availableSize' = availableSize + orderSize
      in if availableSize' \<ge> osize ord then Inl True else fill_queue ord rest availableSize')"

fun fill_levels :: "Order \<Rightarrow> OrderBookEntry list \<Rightarrow> rat \<Rightarrow> bool" where
  "fill_levels ord [] availableSize = False"
| "fill_levels ord (l # ls) availableSize =
     (if \<not> canMatch ord l then False
      else (case fill_queue ord (orders l) availableSize of
              Inl b \<Rightarrow> b
            | Inr availableSize' \<Rightarrow> fill_levels ord ls availableSize'))"

definition canFillOrderCompletely :: "Order \<Rightarrow> OrderBookEntry list \<Rightarrow> bool" where
  "canFillOrderCompletely ord oppositeBook = fill_levels ord oppositeBook 0"

subsection \<open>processOrder\<close>

definition determineOrderStatus :: "order_type \<Rightarrow> rat \<Rightarrow> rat \<Rightarrow> rat \<Rightarrow> order_status" where
  "determineOrderStatus orderType totalFilled originalSize rem =
     (if totalFilled = originalSize then FILLED
      else if totalFilled > 0 then PARTIAL
      else if orderType = IOC \<or> orderType = FOK then CANCELLED
      else PENDING)"

text \<open>
  The part of \<open>processOrder\<close> after the FOK check. When a loop has thrown, \<open>processOrder\<close>
  ends with that error: no status is written and nothing is inserted, while the opposite
  book and the database keep what the loop did to them. \<open>addToOrderBook(updatedOrder)\<close> reads
  \<open>updatedOrder.side\<close>, which throws a TypeError when the database returned no row.
\<close>

definition match_and_book ::
  "Order \<Rightarrow> OrderBookEntry list \<Rightarrow> engine \<times> storage \<Rightarrow> (js_error + MatchResult) \<times> (engine \<times> storage)" where
  "match_and_book ord oppositeBook w =
     (case w of (e, st) \<Rightarrow>
      (let originalSize = osize ord;
           (book', ms) = (if otype ord \<in> {LIMIT, IOC, FOK}
                          then processLimitTypeOrder ord oppositeBook (osize ord) [] st
                          else processMarketOrder ord oppositeBook (osize ord) [] st);
           e1 = mutate_book (opposite (side ord)) (marketId ord) book' e
       in case thrown ms of
            Some err \<Rightarrow> (Inl err, (e1, store ms))
          | None \<Rightarrow>
      (let rem = remainingSize ms;
           totalFilled = originalSize - rem;
           status0 = determineOrderStatus (otype ord) totalFilled originalSize rem;
           status1 = (if otype ord = IOC \<and> rem \<noteq> 0
                      then (if totalFilled > 0 then PARTIAL else CANCELLED) else status0);
           (updatedOrder, st1) = updateOrderStatus (oid ord) status1 (store ms)
       in if rem \<noteq> 0 \<and> otype ord = LIMIT \<and> status1 \<noteq> CANCELLED then
            (case updatedOrder of
               None \<Rightarrow> (Inl TypeError, (e1, st1))
             | Some u \<Rightarrow>
                 (let e2 = addToOrderBook u e1
                  in (Inr \<lparr>r_order = updatedOrder, r_trades = trades ms, rejected = None, rejectReason = None\<rparr>,
                      (e2, updateMarketPrices (marketId ord) e2 st1))))
          else (Inr \<lparr>r_order = updatedOrder, r_trades = trades ms, rejected = None, rejectReason = None\<rparr>,
                (e1, updateMarketPrices (marketId ord) e1 st1)))))"

definition processOrder :: "Order \<Rightarrow> engine \<times> storage \<Rightarrow> (js_error + MatchResult) \<times> (engine \<times> storage)" where
  "processOrder ord w =
     (case w of (e, st) \<Rightarrow>
      (let (oppositeBook, e1) = getOrderBookWithPrioritySort (marketId ord) (opposite (side ord)) e
       in if otype ord = FOK \<and> \<not> canFillOrderCompletely ord oppositeBook then
            (let (rejectedOrder, st1) = updateOrderStatus (oid ord) CANCELLED st
             in (Inr \<lparr>r_order = rejectedOrder, r_trades = [], rejected = Some True,
                      rejectReason = Some ''FOK order cannot be completely filled''\<rparr>, (e1, st1)))
          else match_and_book ord oppositeBook (e1, st)))"

subsection \<open>The route POST /api/orders (server/routes.ts)\<close>

text \<open>
  A submission: the handler stores the order with \<open>createOrder\<close> and gives the returned row to
  \<open>processOrder\<close>; an error of either ends the request (status 400), with the engine and the
  database as they are at that point.
\<close>

definition post_order ::
  "string \<Rightarrow> int \<Rightarrow> InsertOrder \<Rightarrow> engine \<times> storage \<Rightarrow> (js_error + MatchResult) \<times> (engine \<times> storage)" where
  "post_order newId now orderData w =
     (case w of (e, st) \<Rightarrow>
        (case createOrder newId now orderData st of
           (Inl err, st1) \<Rightarrow> (Inl err, (e, st1))
         | (Inr order, st1) \<Rightarrow> processOrder order (e, st1)))"

section \<open>Notions used to state the properties\<close>

text \<open>A fresh engine (\<open>new MatchingEngine()\<close>): both maps empty.\<close>

definition new_engine :: engine where
  "new_engine = \<lparr>yesOrderBook = Map.empty, noOrderBook = Map.empty\<rparr>"

text \<open>The size that one iteration of the inner loop matches (\<open>matchSize\<close>).\<close>

definition match_size :: "match_state \<Rightarrow> Order \<Rightarrow> rat" where
  "match_size s opp = min (remainingSize s) (osize opp - filled opp)"

text \<open>
  An iteration of the inner loop makes a trade when the match size is positive and
  \<open>executeTrade\<close> returns (the database accepts both position updates).
\<close>

definition trade_made :: "Order \<Rightarrow> rat \<Rightarrow> Order \<Rightarrow> match_state \<Rightarrow> bool" where
  "trade_made ord p opp s \<longleftrightarrow>
     match_size s opp > 0 \<and> \<not> isl (fst (executeTrade ord opp (match_size s opp) p (store s)))"

text \<open>A trade is within the limit of the incoming order when its price is no worse than it.\<close>

definition within_limit :: "Order \<Rightarrow> Trade \<Rightarrow> bool" where
  "within_limit ord t \<longleftrightarrow> (if side ord = YES then t_price t \<le> price ord else price ord \<le> t_price t)"

text \<open>All resting orders of a book, level by level.\<close>

definition book_orders :: "OrderBookEntry list \<Rightarrow> Order list" where
  "book_orders book = concat (map orders book)"

text \<open>
  How \<open>executeTrade\<close> attributes a trade between the incoming order \<open>ord\<close> and a resting
  order: the order on the YES side is the buyer, the order on the NO side the seller.
\<close>

definition attributed :: "Order \<Rightarrow> Order \<Rightarrow> Trade \<Rightarrow> bool" where
  "attributed ord resting t \<longleftrightarrow>
     t_side t = side ord \<and>
     (if side ord = YES
      then buyOrderId t = oid ord \<and> buyerId t = userId ord \<and>
           sellOrderId t = oid resting \<and> sellerId t = userId resting
      else buyOrderId t = oid resting \<and> buyerId t = userId resting \<and>
           sellOrderId t = oid ord \<and> sellerId t = userId ord)"



text \<open>A price level as its price and the ids of the orders in its queue, in any order.\<close>

definition level_ids :: "OrderBookEntry \<Rightarrow> rat \<times> string multiset" where
  "level_ids l = (lprice l, mset (map oid (orders l)))"

text \<open>The book that \<open>processOrder\<close> matches against: the opposite side, every queue by time.\<close>

definition sorted_opposite :: "Order \<Rightarrow> engine \<Rightarrow> OrderBookEntry list" where
  "sorted_opposite ord e = map time_sort (get_book (opposite (side ord)) (marketId ord) e)"

text \<open>The total size of a list of trades.\<close>

definition fill_sum :: "Trade list \<Rightarrow> rat" where
  "fill_sum ts = sum_list (map t_size ts)"

text \<open>
  The two dispatches of \<open>processOrder\<close> on the order type, and the status it computes from
  the remaining size (\<open>determineOrderStatus\<close> and the IOC post-processing).
\<close>

definition run_match :: "Order \<Rightarrow> OrderBookEntry list \<Rightarrow> storage \<Rightarrow> OrderBookEntry list \<times> match_state" where
  "run_match ord book st =
     (if otype ord \<in> {LIMIT, IOC, FOK} then processLimitTypeOrder ord book (osize ord) [] st
      else processMarketOrder ord book (osize ord) [] st)"

definition final_status :: "Order \<Rightarrow> rat \<Rightarrow> order_status" where
  "final_status ord rem =
     (if otype ord = IOC \<and> rem \<noteq> 0 then (if osize ord - rem > 0 then PARTIAL else CANCELLED)
      else determineOrderStatus (otype ord) (osize ord - rem) (osize ord) rem)"

text \<open>
  The \<open>filled\<close> column of the row of an order, and what C7 asks of the loop variables: the
  running total is the order's \<open>filled\<close> at submission plus the trades so far, and once
  a trade was made the database holds that total.
\<close>

definition persisted_filled :: "storage \<Rightarrow> string \<Rightarrow> rat option" where
  "persisted_filled st i = map_option filled (find (\<lambda>r. oid r = i) (orders_tbl st))"

definition cumulative_ok :: "Order \<Rightarrow> match_state \<Rightarrow> bool" where
  "cumulative_ok ord s \<longleftrightarrow>
     orderCumulativeFilled s = filled ord + fill_sum (trades s) \<and>
     (trades s \<noteq> [] \<longrightarrow> persisted_filled (store s) (oid ord) = Some (filled ord + fill_sum (trades s)))"

text \<open>
  Non-crossing as the engine's own crossing test reads it. An order is live while it has
  size left, a level while it holds a live order; the books of a market do not cross when
  every live YES level is priced strictly below every live NO level.
\<close>

definition live :: "Order \<Rightarrow> bool" where
  "live ord \<longleftrightarrow> osize ord - filled ord > 0"

definition level_live :: "OrderBookEntry \<Rightarrow> bool" where
  "level_live l \<longleftrightarrow> (\<exists>ord \<in> set (orders l). live ord)"

definition live_prices :: "OrderBookEntry list \<Rightarrow> rat set" where
  "live_prices book = lprice ` {l \<in> set book. level_live l}"



text \<open>
  The columns of an order that no update changes, and the hypothesis that the rows stored
  under the incoming order's id agree with it on them.
\<close>

definition row_key :: "Order \<Rightarrow> string \<times> string \<times> side \<times> rat" where
  "row_key r = (oid r, marketId r, side r, price r)"




text \<open>
  A snapshot of a level up to the order of its queue, and the book that a list \<open>L\<close> of
  insertions on one side of one market builds: strictly sorted levels, each holding the
  orders of \<open>L\<close> at its price in the order of \<open>L\<close>, with their remaining sizes added up.
\<close>

definition remaining :: "Order \<Rightarrow> rat" where
  "remaining x = osize x - filled x"

definition level_view :: "OrderBookEntry \<Rightarrow> rat \<times> rat \<times> Order multiset" where
  "level_view l = (lprice l, lsize l, mset (orders l))"

definition book_key :: "side \<Rightarrow> OrderBookEntry \<Rightarrow> rat" where
  "book_key sd l = (if sd = YES then - lprice l else lprice l)"

definition built_from :: "side \<Rightarrow> OrderBookEntry list \<Rightarrow> Order list \<Rightarrow> bool" where
  "built_from sd B L \<longleftrightarrow>
     sorted_wrt (<) (map (book_key sd) B) \<and>
     (\<forall>l \<in> set B. orders l = filter (\<lambda>x. price x = lprice l) L \<and> orders l \<noteq> [] \<and>
                   lsize l = sum_list (map remaining (orders l))) \<and>
     (\<forall>x \<in> set L. price x \<in> lprice ` set B)"

text \<open>
  The same up to the order of the queues: the book \<open>B\<close> holds exactly the orders of the
  multiset \<open>M\<close>, each in the level of its price.
\<close>

definition book_of :: "side \<Rightarrow> OrderBookEntry list \<Rightarrow> Order multiset \<Rightarrow> bool" where
  "book_of sd B M \<longleftrightarrow>
     sorted_wrt (<) (map (book_key sd) B) \<and>
     (\<forall>l \<in> set B. mset (orders l) = filter_mset (\<lambda>x. price x = lprice l) M \<and> orders l \<noteq> [] \<and>
                   lsize l = sum_mset (image_mset remaining (mset (orders l)))) \<and>
     (\<forall>x \<in> set_mset M. price x \<in> lprice ` set B)"

text \<open>
  The rows that \<open>getActiveMarketOrders\<close> fetches, by side, and the engine and the database
  in step: the ids of the rows are distinct and every book holds exactly the PENDING rows
  of its market and side.
\<close>

definition pending_rows :: "side \<Rightarrow> string \<Rightarrow> storage \<Rightarrow> Order list" where
  "pending_rows sd m st = filter (\<lambda>r. side r = sd \<and> marketId r = m \<and> status r = PENDING) (orders_tbl st)"

definition in_step :: "engine \<times> storage \<Rightarrow> bool" where
  "in_step w \<longleftrightarrow>
     distinct (map oid (orders_tbl (snd w))) \<and>
     (\<forall>sd m. book_of sd (get_book sd m (fst w)) (mset (pending_rows sd m (snd w))))"

text \<open>
  A history of submissions (the generated id, the time and the order data of each), the
  world it leads to, and the histories in which no order is a MARKET order and every
  submission returns without a trade.
\<close>

fun replay :: "(string \<times> int \<times> InsertOrder) list \<Rightarrow> engine \<times> storage \<Rightarrow> engine \<times> storage" where
  "replay [] w = w"
| "replay ((newId, now, orderData) # hs) w = replay hs (snd (post_order newId now orderData w))"

fun untraded :: "(string \<times> int \<times> InsertOrder) list \<Rightarrow> engine \<times> storage \<Rightarrow> bool" where
  "untraded [] w = True"
| "untraded ((newId, now, orderData) # hs) w =
     (i_type orderData \<noteq> MARKET \<and>
      (case fst (post_order newId now orderData w) of Inl err \<Rightarrow> False | Inr r \<Rightarrow> r_trades r = []) \<and>
      untraded hs (snd (post_order newId now orderData w)))"

definition pushed :: "Order \<Rightarrow> OrderBookEntry \<Rightarrow> OrderBookEntry" where
  "pushed u l = (if lprice l = price u
                 then l\<lparr>lsize := lsize l + (osize u - filled u), orders := orders l @ [u]\<rparr> else l)"

definition view_of :: "Order multiset \<Rightarrow> rat \<Rightarrow> rat \<times> rat \<times> Order multiset" where
  "view_of M p = (p, sum_mset (image_mset remaining (filter_mset (\<lambda>x. price x = p) M)),
                  filter_mset (\<lambda>x. price x = p) M)"

section \<open>Concrete scenarios\<close>

text \<open>
  \<open>createMockOrder\<close> of tests/matching-engine.test.ts, with the id and the timestamp given
  by hand; the market is \<open>test-market-123\<close> there and \<open>m\<close> here.
\<close>

definition createMockOrder ::
  "string \<Rightarrow> side \<Rightarrow> order_type \<Rightarrow> rat \<Rightarrow> rat \<Rightarrow> string \<Rightarrow> int \<Rightarrow> Order" where
  "createMockOrder i sd ty p sz uid t =
     \<lparr>oid = i, marketId = ''m'', userId = uid, side = sd, otype = ty, price = p, osize = sz,
      filled = 0, status = PENDING, createdAt = t\<rparr>"

text \<open>A database that holds the given order rows and the market \<open>m\<close>, and nothing else.\<close>

definition db_with :: "Order list \<Rightarrow> storage" where
  "db_with rows = \<lparr>orders_tbl = rows, trades_tbl = [], positions_tbl = [],
                    markets_tbl = [(''m'', 1 / 2, 1 / 2)]\<rparr>"

text \<open>Scenario 1 of the tests: a NO order rests at 0.40, a YES limit order at 0.60 comes in.\<close>

definition sell_040 :: Order where
  "sell_040 = createMockOrder ''s1'' NO LIMIT (2 / 5) 100 ''seller'' 1"

definition buy_060 :: Order where
  "buy_060 = createMockOrder ''b1'' YES LIMIT (3 / 5) 50 ''buyer'' 2"

text \<open>The mirror image: a YES order rests at 0.60, a NO limit order at 0.50 comes in.\<close>

definition alice_yes :: Order where
  "alice_yes = createMockOrder ''y1'' YES LIMIT (3 / 5) 50 ''alice'' 1"

definition bob_no :: Order where
  "bob_no = createMockOrder ''n1'' NO LIMIT (1 / 2) 50 ''bob'' 2"




text \<open>
  A position of 50 YES shares at 0.50, and four orders after which alice holds 50 YES
  shares and then sells 50: bob rests NO at 0.40, alice buys YES at 0.60, carol rests YES at
  0.50, alice comes in with NO at 0.50.
\<close>

definition pos_alice :: Position where
  "pos_alice = \<lparr>p_marketId = ''m'', p_userId = ''alice'', p_side = YES, shares = Num 50,
                 avgPrice = Num (1 / 2)\<rparr>"

definition bob_sell :: Order where
  "bob_sell = createMockOrder ''s2'' NO LIMIT (2 / 5) 50 ''bob'' 1"

definition alice_buy :: Order where
  "alice_buy = createMockOrder ''b2'' YES LIMIT (3 / 5) 50 ''alice'' 2"

definition carol_yes :: Order where
  "carol_yes = createMockOrder ''y2'' YES LIMIT (1 / 2) 50 ''carol'' 3"

definition alice_no :: Order where
  "alice_no = createMockOrder ''n2'' NO LIMIT (1 / 2) 50 ''alice'' 4"

text \<open>The engine and the database after the first three of these orders.\<close>

definition alice_world :: "engine \<times> storage" where
  "alice_world =
     snd (processOrder carol_yes
       (snd (processOrder alice_buy
         (snd (processOrder bob_sell
           (new_engine, db_with [bob_sell, alice_buy, carol_yes, alice_no]))))))"

text \<open>The IOC test: 50 rest on the NO side at 0.60, an IOC order for 100 comes in.\<close>

definition ioc_sell :: Order where
  "ioc_sell = createMockOrder ''s3'' NO LIMIT (3 / 5) 50 ''seller'' 1"

definition ioc_in :: Order where
  "ioc_in = createMockOrder ''i1'' YES IOC (3 / 5) 100 ''buyer'' 2"

text \<open>The zero-size order of the test \<open>should handle zero-size orders\<close>.\<close>

definition zero_order :: Order where
  "zero_order = createMockOrder ''z1'' YES LIMIT (13 / 20) 0 ''user-123'' 1"

text \<open>Three NO levels and a YES order that walks them (trades of 25, 25 and 10).\<close>

definition lvl_030 :: Order where
  "lvl_030 = createMockOrder ''l1'' NO LIMIT (3 / 10) 25 ''seller1'' 1"

definition lvl_035 :: Order where
  "lvl_035 = createMockOrder ''l2'' NO LIMIT (7 / 20) 25 ''seller2'' 2"

definition lvl_040 :: Order where
  "lvl_040 = createMockOrder ''l3'' NO LIMIT (2 / 5) 25 ''seller3'' 3"

definition big_buy :: Order where
  "big_buy = createMockOrder ''b3'' YES LIMIT (1 / 2) 60 ''buyer'' 4"

definition three_levels :: "OrderBookEntry list" where
  "three_levels = get_book NO ''m''
     (addToOrderBook lvl_040 (addToOrderBook lvl_035 (addToOrderBook lvl_030 new_engine)))"

text \<open>The FOK test: 30 at 0.50 and 100 at 0.70 rest on the NO side, FOK for 100 at 0.60.\<close>

definition fok_s1 :: Order where
  "fok_s1 = createMockOrder ''f1'' NO LIMIT (1 / 2) 30 ''seller1'' 1"

definition fok_s2 :: Order where
  "fok_s2 = createMockOrder ''f2'' NO LIMIT (7 / 10) 100 ''seller2'' 2"

definition fok_in :: Order where
  "fok_in = createMockOrder ''f3'' YES FOK (3 / 5) 100 ''buyer'' 3"

text \<open>
  Two NO orders at one price, the older \<open>q1\<close> and the younger \<open>q2\<close>, and the engine that
  \<open>loadOrderBook\<close> builds from a database holding them.
\<close>

definition old_no :: Order where
  "old_no = createMockOrder ''q1'' NO LIMIT (1 / 2) 30 ''seller1'' 1"

definition young_no :: Order where
  "young_no = createMockOrder ''q2'' NO LIMIT (1 / 2) 30 ''seller2'' 2"

definition loaded_engine :: engine where
  "loaded_engine = fst (loadOrderBook ''m'' (new_engine, db_with [old_no, young_no]))"

text \<open>The test \<open>should remove completely filled orders from order book\<close>.\<close>

definition full_sell :: Order where
  "full_sell = createMockOrder ''s4'' NO LIMIT (3 / 5) 100 ''seller'' 1"

definition full_buy :: Order where
  "full_buy = createMockOrder ''b4'' YES LIMIT (3 / 5) 100 ''buyer'' 2"







text \<open>The two NO orders at one price submitted in arrival order, before an unload.\<close>

definition before_unload :: "engine \<times> storage" where
  "before_unload =
     snd (processOrder young_no
       (snd (processOrder old_no (new_engine, db_with [old_no, young_no]))))"

section \<open>The position upsert and executeTrade\<close>

lemma updateOrCreatePosition_frame [simp]:
  "orders_tbl (snd (updateOrCreatePosition m u sd sh a st)) = orders_tbl st"
  "trades_tbl (snd (updateOrCreatePosition m u sd sh a st)) = trades_tbl st"
  "markets_tbl (snd (updateOrCreatePosition m u sd sh a st)) = markets_tbl st"
  by (simp_all add: updateOrCreatePosition_def Let_def split: option.splits sum.splits)

lemma updateOrCreatePosition_error:
  "fst (updateOrCreatePosition m u sd sh a st) = Inl err \<Longrightarrow> err = DatabaseError"
  by (auto simp: updateOrCreatePosition_def Let_def split: option.splits sum.splits)

lemma updatePositions_frame [simp]:
  "orders_tbl (snd (updatePositions t st)) = orders_tbl st"
  "trades_tbl (snd (updatePositions t st)) = trades_tbl st"
  "markets_tbl (snd (updatePositions t st)) = markets_tbl st"
proof -
  let ?a = "updateOrCreatePosition (t_marketId t) (buyerId t) (t_side t) (t_size t) (t_price t) st"
  let ?b = "updateOrCreatePosition (t_marketId t) (sellerId t) (if t_side t = YES then NO else YES)
              (- t_size t) (t_price t) (snd ?a)"
  have s: "snd (updatePositions t st) = (if isl (fst ?a) then snd ?a else snd ?b)"
    by (cases ?a; cases ?b) (auto simp: updatePositions_def Let_def split: sum.splits)
  show "orders_tbl (snd (updatePositions t st)) = orders_tbl st"
    "trades_tbl (snd (updatePositions t st)) = trades_tbl st"
    "markets_tbl (snd (updatePositions t st)) = markets_tbl st"
    by (simp_all add: s)
qed

lemma updatePositions_error:
  "fst (updatePositions t st) = Inl err \<Longrightarrow> err = DatabaseError"
proof -
  let ?a = "updateOrCreatePosition (t_marketId t) (buyerId t) (t_side t) (t_size t) (t_price t) st"
  let ?b = "updateOrCreatePosition (t_marketId t) (sellerId t) (if t_side t = YES then NO else YES)
              (- t_size t) (t_price t) (snd ?a)"
  assume e: "fst (updatePositions t st) = Inl err"
  have "fst (updatePositions t st) =
      (case fst ?a of Inl x \<Rightarrow> Inl x | Inr _ \<Rightarrow> (case fst ?b of Inl x \<Rightarrow> Inl x | Inr _ \<Rightarrow> Inr ()))"
    by (cases ?a; cases ?b) (auto simp: updatePositions_def Let_def split: sum.splits)
  with e have "fst ?a = Inl err \<or> fst ?b = Inl err"
    by (auto split: sum.splits)
  then show ?thesis
    using updateOrCreatePosition_error by blast
qed

lemma executeTrade_frame [simp]:
  "orders_tbl (snd (executeTrade b s sz p st)) = orders_tbl st"
  "trades_tbl (snd (executeTrade b s sz p st)) = trades_tbl st @ [tradeData b s sz p]"
  "markets_tbl (snd (executeTrade b s sz p st)) = markets_tbl st"
proof -
  let ?st1 = "st\<lparr>trades_tbl := trades_tbl st @ [tradeData b s sz p]\<rparr>"
  have s: "snd (executeTrade b s sz p st) = snd (updatePositions (tradeData b s sz p) ?st1)"
    by (cases "updatePositions (tradeData b s sz p) ?st1")
       (auto simp: executeTrade_def createTrade_def split: sum.splits)
  show "orders_tbl (snd (executeTrade b s sz p st)) = orders_tbl st"
    "trades_tbl (snd (executeTrade b s sz p st)) = trades_tbl st @ [tradeData b s sz p]"
    "markets_tbl (snd (executeTrade b s sz p st)) = markets_tbl st"
    by (simp_all add: s)
qed

lemma executeTrade_fst:
  "fst (executeTrade b s sz p st) =
     (if isl (fst (executeTrade b s sz p st)) then Inl DatabaseError else Inr (tradeData b s sz p))"
proof -
  let ?st1 = "st\<lparr>trades_tbl := trades_tbl st @ [tradeData b s sz p]\<rparr>"
  let ?u = "updatePositions (tradeData b s sz p) ?st1"
  have f: "fst (executeTrade b s sz p st) =
      (case fst ?u of Inl x \<Rightarrow> Inl x | Inr _ \<Rightarrow> Inr (tradeData b s sz p))"
    by (cases ?u) (auto simp: executeTrade_def createTrade_def split: sum.splits)
  show ?thesis
  proof (cases "fst ?u")
    case (Inl x)
    with updatePositions_error[OF Inl] f show ?thesis by simp
  next
    case (Inr y)
    with f show ?thesis by simp
  qed
qed

section \<open>The loop body and the loops\<close>

lemma match_one_eq:
  "match_one ord p opp s =
     (if trade_made ord p opp s then
        (opp\<lparr>filled := filled opp + match_size s opp\<rparr>,
         \<lparr>remainingSize = remainingSize s - match_size s opp,
          orderCumulativeFilled = orderCumulativeFilled s + match_size s opp,
          trades = trades s @ [tradeData ord opp (match_size s opp) p],
          store = (let st1 = snd (executeTrade ord opp (match_size s opp) p (store s));
                       st2 = updateOrderFilled (oid ord) (orderCumulativeFilled s + match_size s opp) st1;
                       st3 = updateOrderFilled (oid opp) (filled opp + match_size s opp) st2
                   in if osize opp = filled opp + match_size s opp
                      then snd (updateOrderStatus (oid opp) FILLED st3) else st3),
          thrown = None\<rparr>)
      else if match_size s opp > 0 then
        (opp, s\<lparr>store := snd (executeTrade ord opp (match_size s opp) p (store s)),
               thrown := Some DatabaseError\<rparr>)
      else (opp, s))"
proof -
  obtain r st1 where x: "executeTrade ord opp (match_size s opp) p (store s) = (r, st1)"
    by (cases "executeTrade ord opp (match_size s opp) p (store s)")
  from executeTrade_fst[of ord opp "match_size s opp" p "store s"] x
  have r: "r = (if isl r then Inl DatabaseError else Inr (tradeData ord opp (match_size s opp) p))"
    by simp
  show ?thesis
    unfolding match_one_def trade_made_def Let_def match_size_def[symmetric]
    using r by (cases r) (simp_all add: x)
qed

lemma match_one_trades:
  "trades (snd (match_one ord p opp s)) =
     (if trade_made ord p opp s then trades s @ [tradeData ord opp (match_size s opp) p] else trades s)"
  by (simp add: match_one_eq)

lemma match_one_rem:
  "remainingSize (snd (match_one ord p opp s)) =
     (if trade_made ord p opp s then remainingSize s - match_size s opp else remainingSize s)"
  by (simp add: match_one_eq)

lemma match_one_cum:
  "orderCumulativeFilled (snd (match_one ord p opp s)) =
     (if trade_made ord p opp s then orderCumulativeFilled s + match_size s opp else orderCumulativeFilled s)"
  by (simp add: match_one_eq)

lemma match_one_fst:
  "fst (match_one ord p opp s) =
     (if trade_made ord p opp s then opp\<lparr>filled := filled opp + match_size s opp\<rparr> else opp)"
  by (simp add: match_one_eq)



lemma match_and_book_trades:
  assumes "fst (match_and_book ord book w) = Inr r"
  shows "r_trades r = trades (snd (if otype ord \<in> {LIMIT, IOC, FOK}
                          then processLimitTypeOrder ord book (osize ord) [] (snd w)
                          else processMarketOrder ord book (osize ord) [] (snd w)))"
  using assms
  by (cases w) (auto simp: match_and_book_def Let_def case_prod_unfold split: if_splits option.splits)

lemma set_book_orders_time_sort: "set (book_orders (map time_sort book)) = set (book_orders book)"
  by (induction book) (auto simp: book_orders_def time_sort_def)

section \<open>Reading and writing the books\<close>

lemma get_book_set_book:
  "get_book sd m (set_book sd' m' b e) = (if sd = sd' \<and> m = m' then b else get_book sd m e)"
  by (cases sd; cases sd') (auto simp: get_book_def set_book_def book_map_def)









section \<open>Frames, conservation and the shape of the books\<close>

lemma updateOrderFilled_frame [simp]:
  "trades_tbl (updateOrderFilled i f st) = trades_tbl st"
  "positions_tbl (updateOrderFilled i f st) = positions_tbl st"
  "markets_tbl (updateOrderFilled i f st) = markets_tbl st"
  "map oid (orders_tbl (updateOrderFilled i f st)) = map oid (orders_tbl st)"
  by (simp_all add: updateOrderFilled_def comp_def)

lemma updateOrderStatus_frame [simp]:
  "trades_tbl (snd (updateOrderStatus i s st)) = trades_tbl st"
  "positions_tbl (snd (updateOrderStatus i s st)) = positions_tbl st"
  "markets_tbl (snd (updateOrderStatus i s st)) = markets_tbl st"
  "map oid (orders_tbl (snd (updateOrderStatus i s st))) = map oid (orders_tbl st)"
  by (simp_all add: updateOrderStatus_def Let_def comp_def)

lemma find_map_same_id:
  "find (\<lambda>r. oid r = i) (map (\<lambda>r. if oid r = i then r\<lparr>status := s\<rparr> else r) rows) =
   map_option (\<lambda>r. r\<lparr>status := s\<rparr>) (find (\<lambda>r. oid r = i) rows)"
  by (induction rows) auto

lemma updateOrderStatus_fst:
  "fst (updateOrderStatus i s st) = map_option (\<lambda>r. r\<lparr>status := s\<rparr>) (find (\<lambda>r. oid r = i) (orders_tbl st))"
  by (simp add: updateOrderStatus_def Let_def find_map_same_id)

lemma find_oid_None_iff: "find (\<lambda>r. oid r = i) rows = None \<longleftrightarrow> i \<notin> set (map oid rows)"
  by (induction rows) auto

lemma match_one_store_oids [simp]:
  "map oid (orders_tbl (store (snd (match_one ord p opp s)))) = map oid (orders_tbl (store s))"
  by (simp add: match_one_eq Let_def)

lemma match_one_conserve:
  "remainingSize (snd (match_one ord p opp s)) + fill_sum (trades (snd (match_one ord p opp s))) =
   remainingSize s + fill_sum (trades s)"
  by (simp add: match_one_rem match_one_trades fill_sum_def tradeData_def)

lemma match_one_cum_conserve:
  "orderCumulativeFilled (snd (match_one ord p opp s)) - fill_sum (trades (snd (match_one ord p opp s))) =
   orderCumulativeFilled s - fill_sum (trades s)"
  by (simp add: match_one_cum match_one_trades fill_sum_def tradeData_def)

lemma match_queue_unfold:
  "match_queue ord p (opp # rest) s =
     (if thrown s \<noteq> None \<or> remainingSize s = 0 then (opp # rest, s)
      else (fst (match_one ord p opp s) # fst (match_queue ord p rest (snd (match_one ord p opp s))),
            snd (match_queue ord p rest (snd (match_one ord p opp s)))))"
  by (simp add: case_prod_unfold Let_def)

lemma limit_levels_unfold:
  "limit_levels ord (l # ls) s =
     (if thrown s \<noteq> None \<or> remainingSize s = 0 \<or> \<not> canMatch ord l then (l # ls, s)
      else (l\<lparr>orders := fst (match_queue ord (lprice l) (orders l) s)\<rparr> #
              fst (limit_levels ord ls (snd (match_queue ord (lprice l) (orders l) s))),
            snd (limit_levels ord ls (snd (match_queue ord (lprice l) (orders l) s)))))"
  by (simp add: case_prod_unfold Let_def)

lemma market_levels_unfold:
  "market_levels ord (l # ls) s =
     (if thrown s \<noteq> None \<or> remainingSize s = 0 then (l # ls, s)
      else (l\<lparr>orders := fst (match_queue ord (lprice l) (orders l) s)\<rparr> #
              fst (market_levels ord ls (snd (match_queue ord (lprice l) (orders l) s))),
            snd (market_levels ord ls (snd (match_queue ord (lprice l) (orders l) s)))))"
  by (simp add: case_prod_unfold Let_def)

lemmas loop_unfold = match_queue_unfold limit_levels_unfold market_levels_unfold

declare match_queue.simps(2) [simp del] limit_levels.simps(2) [simp del] market_levels.simps(2) [simp del]



lemma market_levels_thrown: "thrown s \<noteq> None \<Longrightarrow> market_levels ord b s = (b, s)"
  by (cases b) (simp_all add: loop_unfold)

lemma match_queue_conserve:
  "remainingSize (snd (match_queue ord p q s)) + fill_sum (trades (snd (match_queue ord p q s))) =
   remainingSize s + fill_sum (trades s)"
  by (induction q arbitrary: s) (simp_all add: loop_unfold match_one_conserve)

lemma limit_levels_conserve:
  "remainingSize (snd (limit_levels ord b s)) + fill_sum (trades (snd (limit_levels ord b s))) =
   remainingSize s + fill_sum (trades s)"
  by (induction b arbitrary: s) (simp_all add: loop_unfold match_queue_conserve)

lemma market_levels_conserve:
  "remainingSize (snd (market_levels ord b s)) + fill_sum (trades (snd (market_levels ord b s))) =
   remainingSize s + fill_sum (trades s)"
  by (induction b arbitrary: s) (simp_all add: loop_unfold match_queue_conserve)

lemma match_queue_store_oids [simp]:
  "map oid (orders_tbl (store (snd (match_queue ord p q s)))) = map oid (orders_tbl (store s))"
  by (induction q arbitrary: s) (simp_all add: loop_unfold)

lemma limit_levels_store_oids [simp]:
  "map oid (orders_tbl (store (snd (limit_levels ord b s)))) = map oid (orders_tbl (store s))"
  by (induction b arbitrary: s) (simp_all add: loop_unfold)

lemma market_levels_store_oids [simp]:
  "map oid (orders_tbl (store (snd (market_levels ord b s)))) = map oid (orders_tbl (store s))"
  by (induction b arbitrary: s) (simp_all add: loop_unfold)

lemma match_queue_oids [simp]: "map oid (fst (match_queue ord p q s)) = map oid q"
  by (induction q arbitrary: s) (simp_all add: loop_unfold match_one_fst)

lemma limit_levels_ids [simp]: "map level_ids (fst (limit_levels ord b s)) = map level_ids b"
  by (induction b arbitrary: s) (simp_all add: loop_unfold level_ids_def)

lemma market_levels_ids [simp]: "map level_ids (fst (market_levels ord b s)) = map level_ids b"
  by (induction b arbitrary: s) (simp_all add: loop_unfold level_ids_def)

lemma time_sort_ids [simp]: "map level_ids (map time_sort b) = map level_ids b"
  by (induction b) (simp_all add: level_ids_def time_sort_def)

lemma get_book_mutate_book:
  "get_book sd m (mutate_book sd' m' b e) =
     (if sd = sd' \<and> m = m' \<and> book_map sd' e m' \<noteq> None then b else get_book sd m e)"
  by (auto simp: mutate_book_def get_book_set_book split: option.splits)

lemma book_map_mutate_book:
  "book_map sd (mutate_book sd' m' b e) m = None \<longleftrightarrow> book_map sd e m = None"
  by (cases sd; cases sd') (auto simp: mutate_book_def set_book_def book_map_def split: option.splits)

lemma get_book_None: "book_map sd e m = None \<Longrightarrow> get_book sd m e = []"
  by (simp add: get_book_def)

lemma processOrder_rejected:
  assumes "otype ord = FOK" and "\<not> canFillOrderCompletely ord (sorted_opposite ord e)"
  shows "processOrder ord (e, st) =
     (Inr \<lparr>r_order = fst (updateOrderStatus (oid ord) CANCELLED st), r_trades = [],
           rejected = Some True, rejectReason = Some ''FOK order cannot be completely filled''\<rparr>,
      (mutate_book (opposite (side ord)) (marketId ord) (sorted_opposite ord e) e,
       snd (updateOrderStatus (oid ord) CANCELLED st)))"
  using assms
  by (simp add: processOrder_def getOrderBookWithPrioritySort_def sorted_opposite_def Let_def case_prod_unfold)

lemma processOrder_matched:
  assumes "\<not> (otype ord = FOK \<and> \<not> canFillOrderCompletely ord (sorted_opposite ord e))"
  shows "processOrder ord (e, st) =
     match_and_book ord (sorted_opposite ord e)
       (mutate_book (opposite (side ord)) (marketId ord) (sorted_opposite ord e) e, st)"
  using assms
  by (auto simp add: processOrder_def getOrderBookWithPrioritySort_def sorted_opposite_def Let_def case_prod_unfold)

section \<open>The result of processOrder\<close>

lemma level_ids_time_sort [simp]: "level_ids (time_sort l) = level_ids l"
  by (simp add: level_ids_def time_sort_def)

lemma sorted_opposite_ids [simp]:
  "map level_ids (sorted_opposite ord e) = map level_ids (get_book (opposite (side ord)) (marketId ord) e)"
  by (simp add: sorted_opposite_def)

lemma run_match_ids [simp]: "map level_ids (fst (run_match ord b st)) = map level_ids b"
  by (simp add: run_match_def processLimitTypeOrder_def processMarketOrder_def)

lemma run_match_Nil [simp]: "fst (run_match ord [] st) = []"
  by (simp add: run_match_def processLimitTypeOrder_def processMarketOrder_def)

lemma run_match_conserve:
  "remainingSize (snd (run_match ord b st)) + fill_sum (trades (snd (run_match ord b st))) = osize ord"
  using limit_levels_conserve[of ord b "\<lparr>remainingSize = osize ord, orderCumulativeFilled = filled ord, trades = [], store = st, thrown = None\<rparr>"]
    market_levels_conserve[of ord b "\<lparr>remainingSize = osize ord, orderCumulativeFilled = filled ord, trades = [], store = st, thrown = None\<rparr>"]
  by (simp add: run_match_def processLimitTypeOrder_def processMarketOrder_def fill_sum_def)

lemma run_match_store_oids [simp]:
  "map oid (orders_tbl (store (snd (run_match ord b st)))) = map oid (orders_tbl st)"
  by (simp add: run_match_def processLimitTypeOrder_def processMarketOrder_def)


lemma match_and_book_no_insert:
  assumes "otype ord \<noteq> LIMIT \<or> remainingSize (snd (run_match ord book st)) = 0"
    and "thrown (snd (run_match ord book st)) = None"
  shows "match_and_book ord book (e, st) =
     (let ms = snd (run_match ord book st);
          e1 = mutate_book (opposite (side ord)) (marketId ord) (fst (run_match ord book st)) e;
          upd = updateOrderStatus (oid ord) (final_status ord (remainingSize ms)) (store ms)
      in (Inr \<lparr>r_order = fst upd, r_trades = trades ms, rejected = None, rejectReason = None\<rparr>,
          (e1, updateMarketPrices (marketId ord) e1 (snd upd))))"
  using assms
  by (auto simp: match_and_book_def run_match_def final_status_def Let_def case_prod_unfold)


lemma ids_mutate_book:
  "map level_ids b = map level_ids (get_book sd' m' e) \<Longrightarrow>
   map level_ids (get_book sd m (mutate_book sd' m' b e)) = map level_ids (get_book sd m e)"
  by (simp add: get_book_mutate_book)

lemma ids_sorted_engine:
  "map level_ids (get_book sd m (mutate_book (opposite (side ord)) (marketId ord) (sorted_opposite ord e) e))
   = map level_ids (get_book sd m e)"
  by (rule ids_mutate_book) simp

lemma get_book_sorted_engine:
  "get_book sd m (mutate_book (opposite (side ord)) (marketId ord) (sorted_opposite ord e) e) =
    (if sd = opposite (side ord) \<and> m = marketId ord then sorted_opposite ord e else get_book sd m e)"
  by (auto simp: get_book_mutate_book sorted_opposite_def get_book_None)

lemma get_book_matched_engine:
  "get_book sd m (mutate_book (opposite (side ord)) (marketId ord) (fst (run_match ord (sorted_opposite ord e) st))
      (mutate_book (opposite (side ord)) (marketId ord) (sorted_opposite ord e) e)) =
    (if sd = opposite (side ord) \<and> m = marketId ord then fst (run_match ord (sorted_opposite ord e) st)
     else get_book sd m e)"
  by (auto simp: get_book_mutate_book book_map_mutate_book sorted_opposite_def get_book_None)

lemma updateOrderStatus_Some:
  assumes "i \<in> set (map oid (orders_tbl st))"
  shows "\<exists>row. find (\<lambda>r. oid r = i) (orders_tbl st) = Some row \<and> oid row = i \<and>
           fst (updateOrderStatus i s st) = Some (row\<lparr>status := s\<rparr>)"
proof -
  from assms obtain row where f: "find (\<lambda>r. oid r = i) (orders_tbl st) = Some row"
    using find_oid_None_iff[of i "orders_tbl st"] by (cases "find (\<lambda>r. oid r = i) (orders_tbl st)") auto
  then have "oid row = i" by (auto simp: find_Some_iff)
  with f show ?thesis by (simp add: updateOrderStatus_fst)
qed

lemma mutate_book_same:
  "book_map sd e m = Some b \<Longrightarrow> mutate_book sd m b e = e"
  by (cases sd) (auto simp: mutate_book_def set_book_def book_map_def map_upd_triv)

lemma map_time_sort_id:
  "\<forall>l \<in> set b. sorted (map createdAt (orders l)) \<Longrightarrow> map time_sort b = b"
  by (induction b) (simp_all add: time_sort_def sort_key_id_if_sorted)

section \<open>The persisted fill of the incoming order\<close>

lemma find_map_keep:
  "(\<And>r. P (g r) = P r) \<Longrightarrow> find P (map g rows) = map_option g (find P rows)"
  by (induction rows) auto

lemma persisted_updateOrderFilled:
  "persisted_filled (updateOrderFilled j f st) i =
     (if i = j then map_option (\<lambda>_. f) (persisted_filled st i) else persisted_filled st i)"
proof -
  have m: "find (\<lambda>r. oid r = i) (map (\<lambda>r. if oid r = j then r\<lparr>filled := f\<rparr> else r) (orders_tbl st)) =
        map_option (\<lambda>r. if oid r = j then r\<lparr>filled := f\<rparr> else r) (find (\<lambda>r. oid r = i) (orders_tbl st))"
    by (rule find_map_keep) simp
  show ?thesis
  proof (cases "find (\<lambda>r. oid r = i) (orders_tbl st)")
    case None
    with m show ?thesis by (auto simp: persisted_filled_def updateOrderFilled_def)
  next
    case (Some row)
    then have "oid row = i" by (auto simp: find_Some_iff)
    with m Some show ?thesis by (auto simp: persisted_filled_def updateOrderFilled_def)
  qed
qed

lemma persisted_updateOrderStatus:
  "persisted_filled (snd (updateOrderStatus j s st)) i = persisted_filled st i"
proof -
  have "find (\<lambda>r. oid r = i) (map (\<lambda>r. if oid r = j then r\<lparr>status := s\<rparr> else r) (orders_tbl st)) =
        map_option (\<lambda>r. if oid r = j then r\<lparr>status := s\<rparr> else r) (find (\<lambda>r. oid r = i) (orders_tbl st))"
    by (rule find_map_keep) simp
  then show ?thesis
    by (cases "find (\<lambda>r. oid r = i) (orders_tbl st)")
       (auto simp: persisted_filled_def updateOrderStatus_def Let_def)
qed

lemma persisted_executeTrade:
  "persisted_filled (snd (executeTrade b s sz p st)) i = persisted_filled st i"
  by (simp add: persisted_filled_def)

lemma persisted_None_iff: "persisted_filled st i = None \<longleftrightarrow> i \<notin> set (map oid (orders_tbl st))"
  by (simp add: persisted_filled_def find_oid_None_iff)

lemma match_one_idle: "\<not> match_size s opp > 0 \<Longrightarrow> match_one ord p opp s = (opp, s)"
  by (simp only: match_one_def match_size_def Let_def if_False)

lemma match_one_persisted:
  assumes "trade_made ord p opp s" and "oid opp \<noteq> oid ord"
    and "oid ord \<in> set (map oid (orders_tbl (store s)))"
  shows "persisted_filled (store (snd (match_one ord p opp s))) (oid ord) =
         Some (orderCumulativeFilled s + match_size s opp)"
proof -
  from assms(3) obtain f where f: "persisted_filled (store s) (oid ord) = Some f"
    using persisted_None_iff[of "store s" "oid ord"] by (cases "persisted_filled (store s) (oid ord)") auto
  show ?thesis using assms(1,2) f
    by (simp add: match_one_eq Let_def persisted_updateOrderFilled
        persisted_updateOrderStatus persisted_executeTrade)
qed

lemma match_one_refused:
  "\<not> trade_made ord p opp s \<Longrightarrow>
   persisted_filled (store (snd (match_one ord p opp s))) i = persisted_filled (store s) i"
  by (simp add: match_one_eq persisted_executeTrade)

lemma cumulative_ok_match_one:
  assumes "cumulative_ok ord s" and "oid opp \<noteq> oid ord"
    and "oid ord \<in> set (map oid (orders_tbl (store s)))"
  shows "cumulative_ok ord (snd (match_one ord p opp s))"
proof (cases "trade_made ord p opp s")
  case True
  from match_one_persisted[OF True assms(2,3)] assms(1) True show ?thesis
    by (simp add: cumulative_ok_def match_one_cum match_one_trades fill_sum_def tradeData_def)
next
  case False
  with assms(1) match_one_refused[OF False, of "oid ord"] show ?thesis
    by (simp add: cumulative_ok_def match_one_cum match_one_trades)
qed

lemma cumulative_ok_match_queue:
  assumes "cumulative_ok ord s" and "\<forall>opp \<in> set q. oid opp \<noteq> oid ord"
    and "oid ord \<in> set (map oid (orders_tbl (store s)))"
  shows "cumulative_ok ord (snd (match_queue ord p q s))"
  using assms
proof (induction q arbitrary: s)
  case Nil
  then show ?case by simp
next
  case (Cons opp rest)
  show ?case
  proof (cases "thrown s \<noteq> None \<or> remainingSize s = 0")
    case True
    with Cons.prems show ?thesis by (simp add: loop_unfold)
  next
    case False
    have "cumulative_ok ord (snd (match_one ord p opp s))"
      using Cons.prems by (intro cumulative_ok_match_one) auto
    then have "cumulative_ok ord (snd (match_queue ord p rest (snd (match_one ord p opp s))))"
      using Cons.prems by (intro Cons.IH) auto
    with False show ?thesis by (simp add: loop_unfold)
  qed
qed

lemma not_in_book_ordersD:
  "i \<notin> set (map oid (book_orders (l # ls))) \<Longrightarrow>
   (\<forall>opp \<in> set (orders l). oid opp \<noteq> i) \<and> i \<notin> set (map oid (book_orders ls))"
  by (auto simp: book_orders_def)

lemma cumulative_ok_limit_levels:
  assumes "cumulative_ok ord s" and "oid ord \<notin> set (map oid (book_orders b))"
    and "oid ord \<in> set (map oid (orders_tbl (store s)))"
  shows "cumulative_ok ord (snd (limit_levels ord b s))"
  using assms
proof (induction b arbitrary: s)
  case Nil
  then show ?case by simp
next
  case (Cons l ls)
  show ?case
  proof (cases "thrown s \<noteq> None \<or> remainingSize s = 0 \<or> \<not> canMatch ord l")
    case True
    with Cons.prems show ?thesis by (simp add: loop_unfold)
  next
    case False
    have "cumulative_ok ord (snd (match_queue ord (lprice l) (orders l) s))"
      using Cons.prems not_in_book_ordersD[OF Cons.prems(2)]
      by (intro cumulative_ok_match_queue) simp_all
    then have "cumulative_ok ord (snd (limit_levels ord ls (snd (match_queue ord (lprice l) (orders l) s))))"
      using Cons.prems not_in_book_ordersD[OF Cons.prems(2)]
      by (intro Cons.IH) simp_all
    with False show ?thesis by (simp add: loop_unfold)
  qed
qed

lemma cumulative_ok_market_levels:
  assumes "cumulative_ok ord s" and "oid ord \<notin> set (map oid (book_orders b))"
    and "oid ord \<in> set (map oid (orders_tbl (store s)))"
  shows "cumulative_ok ord (snd (market_levels ord b s))"
  using assms
proof (induction b arbitrary: s)
  case Nil
  then show ?case by simp
next
  case (Cons l ls)
  show ?case
  proof (cases "thrown s \<noteq> None \<or> remainingSize s = 0")
    case True
    with Cons.prems show ?thesis by (simp add: loop_unfold)
  next
    case False
    have "cumulative_ok ord (snd (match_queue ord (lprice l) (orders l) s))"
      using Cons.prems not_in_book_ordersD[OF Cons.prems(2)]
      by (intro cumulative_ok_match_queue) simp_all
    then have "cumulative_ok ord (snd (market_levels ord ls (snd (match_queue ord (lprice l) (orders l) s))))"
      using Cons.prems not_in_book_ordersD[OF Cons.prems(2)]
      by (intro Cons.IH) simp_all
    with False show ?thesis by (simp add: loop_unfold)
  qed
qed


section \<open>Trade attribution (C1)\<close>

lemma attributed_tradeData: "attributed ord opp (tradeData ord opp sz p)"
  by (simp add: attributed_def tradeData_def)

lemma match_queue_attributed:
  "t \<in> set (trades (snd (match_queue ord p q s))) \<Longrightarrow>
   t \<in> set (trades s) \<or> (\<exists>opp \<in> set q. attributed ord opp t)"
proof (induction q arbitrary: s)
  case Nil
  then show ?case by simp
next
  case (Cons opp rest)
  show ?case
  proof (cases "thrown s \<noteq> None \<or> remainingSize s = 0")
    case True
    with Cons.prems show ?thesis by (simp add: loop_unfold)
  next
    case False
    let ?s1 = "snd (match_one ord p opp s)"
    from False Cons.prems have "t \<in> set (trades (snd (match_queue ord p rest ?s1)))"
      by (simp add: loop_unfold)
    from Cons.IH[OF this] show ?thesis
      by (auto simp: match_one_trades attributed_tradeData split: if_splits)
  qed
qed

lemma limit_levels_attributed:
  "t \<in> set (trades (snd (limit_levels ord book s))) \<Longrightarrow>
   t \<in> set (trades s) \<or> (\<exists>opp \<in> set (book_orders book). attributed ord opp t)"
proof (induction book arbitrary: s)
  case Nil
  then show ?case by simp
next
  case (Cons l ls)
  show ?case
  proof (cases "thrown s \<noteq> None \<or> remainingSize s = 0 \<or> \<not> canMatch ord l")
    case True
    with Cons.prems show ?thesis by (auto simp: loop_unfold)
  next
    case False
    let ?s1 = "snd (match_queue ord (lprice l) (orders l) s)"
    from False Cons.prems have "t \<in> set (trades (snd (limit_levels ord ls ?s1)))"
      by (simp add: loop_unfold)
    from Cons.IH[OF this] show ?thesis
      using match_queue_attributed[of t ord "lprice l" "orders l" s]
      by (auto simp: book_orders_def)
  qed
qed

lemma market_levels_attributed:
  "t \<in> set (trades (snd (market_levels ord book s))) \<Longrightarrow>
   t \<in> set (trades s) \<or> (\<exists>opp \<in> set (book_orders book). attributed ord opp t)"
proof (induction book arbitrary: s)
  case Nil
  then show ?case by simp
next
  case (Cons l ls)
  show ?case
  proof (cases "thrown s \<noteq> None \<or> remainingSize s = 0")
    case True
    with Cons.prems show ?thesis by (auto simp: loop_unfold)
  next
    case False
    let ?s1 = "snd (match_queue ord (lprice l) (orders l) s)"
    from False Cons.prems have "t \<in> set (trades (snd (market_levels ord ls ?s1)))"
      by (simp add: loop_unfold)
    from Cons.IH[OF this] show ?thesis
      using match_queue_attributed[of t ord "lprice l" "orders l" s]
      by (auto simp: book_orders_def)
  qed
qed

lemma processLimitTypeOrder_attributed:
  "t \<in> set (trades (snd (processLimitTypeOrder ord book rem [] st))) \<Longrightarrow>
   \<exists>opp \<in> set (book_orders book). attributed ord opp t"
  unfolding processLimitTypeOrder_def by (drule limit_levels_attributed) simp

lemma processMarketOrder_attributed:
  "t \<in> set (trades (snd (processMarketOrder ord book rem [] st))) \<Longrightarrow>
   \<exists>opp \<in> set (book_orders book). attributed ord opp t"
  unfolding processMarketOrder_def by (drule market_levels_attributed) simp

text \<open>
  C1, as the code has it. Every trade that \<open>processOrder\<close> returns is between the incoming
  order and an order that rested in the opposite book of its market; its recorded side is
  the incoming order's side; the order on the YES side is recorded as the buyer and the
  order on the NO side as the seller. So an incoming YES order is the buyer and the resting
  NO order the seller, and an incoming NO order is the seller and the resting YES order the
  buyer.
\<close>

theorem trade_attribution:
  assumes "fst (processOrder ord (e, st)) = Inr r" and "t \<in> set (r_trades r)"
  shows "\<exists>resting \<in> set (book_orders (get_book (opposite (side ord)) (marketId ord) e)).
           attributed ord resting t"
proof -
  let ?book = "sorted_opposite ord e"
  have "\<exists>resting \<in> set (book_orders ?book). attributed ord resting t"
  proof (cases "otype ord = FOK \<and> \<not> canFillOrderCompletely ord ?book")
    case True
    with assms show ?thesis by (auto simp: processOrder_rejected)
  next
    case False
    with assms(1) have m: "fst (match_and_book ord ?book
        (mutate_book (opposite (side ord)) (marketId ord) ?book e, st)) = Inr r"
      by (simp add: processOrder_matched)
    from match_and_book_trades[OF m] assms(2) show ?thesis
      using processLimitTypeOrder_attributed[of t ord ?book "osize ord" st]
        processMarketOrder_attributed[of t ord ?book "osize ord" st]
      by (auto split: if_splits)
  qed
  then show ?thesis by (simp add: sorted_opposite_def set_book_orders_time_sort)
qed

text \<open>
  The theorem at scenario 1: the one trade of the incoming YES order \<open>b1\<close> has \<open>b1\<close> and its
  user as the buyer and the resting NO order \<open>s1\<close> as the seller.
\<close>

theorem trade_attribution_witness:
  "fst (processOrder buy_060 (addToOrderBook sell_040 new_engine, db_with [sell_040, buy_060])) =
     Inr \<lparr>r_order = Some (buy_060\<lparr>filled := 50, status := FILLED\<rparr>),
          r_trades = [\<lparr>t_marketId = ''m'', buyOrderId = ''b1'', sellOrderId = ''s1'',
                       buyerId = ''buyer'', sellerId = ''seller'', t_side = YES,
                       t_price = 2 / 5, t_size = 50\<rparr>],
          rejected = None, rejectReason = None\<rparr>
   \<and> (\<exists>resting \<in> set (book_orders (get_book NO ''m'' (addToOrderBook sell_040 new_engine))).
         attributed buy_060 resting
           \<lparr>t_marketId = ''m'', buyOrderId = ''b1'', sellOrderId = ''s1'',
            buyerId = ''buyer'', sellerId = ''seller'', t_side = YES,
            t_price = 2 / 5, t_size = 50\<rparr>)"
proof -
  let ?t = "\<lparr>t_marketId = ''m'', buyOrderId = ''b1'', sellOrderId = ''s1'',
             buyerId = ''buyer'', sellerId = ''seller'', t_side = YES,
             t_price = 2 / 5, t_size = 50\<rparr>"
  let ?r = "\<lparr>r_order = Some (buy_060\<lparr>filled := 50, status := FILLED\<rparr>), r_trades = [?t],
             rejected = None, rejectReason = None\<rparr>"
  have run: "fst (processOrder buy_060 (addToOrderBook sell_040 new_engine, db_with [sell_040, buy_060])) = Inr ?r"
    by code_simp
  have mem: "?t \<in> set (r_trades ?r)" by simp
  have sd: "opposite (side buy_060) = NO" "marketId buy_060 = ''m''"
    by (simp_all add: buy_060_def createMockOrder_def opposite_def)
  from trade_attribution[OF run mem] run show ?thesis by (simp add: sd)
qed

text \<open>
  C1 as the spec states it fails for an incoming NO order: the NO order \<open>n1\<close> of bob
  crosses the resting YES order \<open>y1\<close> of alice, and the trade records \<open>y1\<close> and alice as
  the buyer, \<open>n1\<close> and bob (the incoming order) as the seller.
\<close>

theorem trade_attribution_counterexample:
  "side bob_no = NO \<and> oid bob_no = ''n1'' \<and> userId bob_no = ''bob'' \<and>
   fst (processOrder bob_no (addToOrderBook alice_yes new_engine, db_with [alice_yes, bob_no])) =
     Inr \<lparr>r_order = Some (bob_no\<lparr>filled := 50, status := FILLED\<rparr>),
          r_trades = [\<lparr>t_marketId = ''m'', buyOrderId = ''y1'', sellOrderId = ''n1'',
                       buyerId = ''alice'', sellerId = ''bob'', t_side = NO,
                       t_price = 3 / 5, t_size = 50\<rparr>],
          rejected = None, rejectReason = None\<rparr>"
  by code_simp

section \<open>Filled orders stay in the book (C2)\<close>

text \<open>
  C2 does not hold of the code. In the test \<open>should remove completely filled orders from
  order book\<close> the resting NO order is filled completely; its row gets status FILLED, but the
  order is still in the queue of its level afterwards, with \<open>filled\<close> equal to its size, and
  the level's aggregate size is still 100.
\<close>

theorem filled_order_stays_in_book:
  "get_book NO ''m'' (fst (snd
     (processOrder full_buy (addToOrderBook full_sell new_engine, db_with [full_sell, full_buy])))) =
     [\<lparr>lprice = 3 / 5, lsize = 100, orders = [full_sell\<lparr>filled := 100\<rparr>]\<rparr>] \<and>
   orders_tbl (snd (snd
     (processOrder full_buy (addToOrderBook full_sell new_engine, db_with [full_sell, full_buy])))) =
     [full_sell\<lparr>filled := 100, status := FILLED\<rparr>, full_buy\<lparr>filled := 100, status := FILLED\<rparr>]"
  by code_simp

section \<open>The books do not cross (C3)\<close>


lemma updateOrderFilled_keys [simp]:
  "map row_key (orders_tbl (updateOrderFilled i f st)) = map row_key (orders_tbl st)"
  by (simp add: updateOrderFilled_def comp_def row_key_def)

lemma updateOrderStatus_keys [simp]:
  "map row_key (orders_tbl (snd (updateOrderStatus i s st))) = map row_key (orders_tbl st)"
  by (simp add: updateOrderStatus_def Let_def comp_def row_key_def)

lemma executeTrade_keys [simp]:
  "map row_key (orders_tbl (snd (executeTrade b s sz p st))) = map row_key (orders_tbl st)"
  by simp

lemma match_one_keys [simp]:
  "map row_key (orders_tbl (store (snd (match_one ord p opp s)))) = map row_key (orders_tbl (store s))"
  by (simp add: match_one_eq Let_def)

lemma match_queue_keys [simp]:
  "map row_key (orders_tbl (store (snd (match_queue ord p q s)))) = map row_key (orders_tbl (store s))"
  by (induction q arbitrary: s) (simp_all add: loop_unfold)

lemma limit_levels_keys [simp]:
  "map row_key (orders_tbl (store (snd (limit_levels ord b s)))) = map row_key (orders_tbl (store s))"
  by (induction b arbitrary: s) (simp_all add: loop_unfold)

lemma market_levels_keys [simp]:
  "map row_key (orders_tbl (store (snd (market_levels ord b s)))) = map row_key (orders_tbl (store s))"
  by (induction b arbitrary: s) (simp_all add: loop_unfold)

lemma run_match_keys [simp]:
  "map row_key (orders_tbl (store (snd (run_match ord b st)))) = map row_key (orders_tbl st)"
  by (simp add: run_match_def processLimitTypeOrder_def processMarketOrder_def)






lemma live_prices_Nil [simp]: "live_prices [] = {}"
  by (simp add: live_prices_def)

lemma live_prices_Cons:
  "live_prices (l # ls) = (if level_live l then insert (lprice l) (live_prices ls) else live_prices ls)"
  by (auto simp: live_prices_def)




lemma level_live_time_sort [simp]: "level_live (time_sort l) = level_live l"
  by (simp add: level_live_def time_sort_def)

lemma lprice_time_sort [simp]: "lprice (time_sort l) = lprice l"
  by (simp add: time_sort_def)

lemma live_prices_time_sort [simp]: "live_prices (map time_sort b) = live_prices b"
  by (induction b) (simp_all add: live_prices_Cons)












lemma live_prices_set: "set a = set b \<Longrightarrow> live_prices a = live_prices b"
  by (simp add: live_prices_def)

lemma live_prices_insert_level [simp]: "live_prices (insert_level u b) = live_prices b"
proof (cases "find (\<lambda>l. lprice l = price u) b")
  case None
  have "live_prices (sort_book (side u) (b @ [\<lparr>lprice = price u, lsize = 0, orders = []\<rparr>])) =
        live_prices (b @ [\<lparr>lprice = price u, lsize = 0, orders = []\<rparr>])"
    by (rule live_prices_set) (simp add: sort_book_def)
  also have "\<dots> = live_prices b"
    by (auto simp: live_prices_def level_live_def)
  finally show ?thesis using None by (simp add: insert_level_def)
next
  case (Some a)
  then show ?thesis by (simp add: insert_level_def)
qed









lemma opposite_cases: "(sd = YES \<longrightarrow> opposite sd = NO) \<and> (sd \<noteq> YES \<longrightarrow> sd = NO \<and> opposite sd = YES)"
  by (cases sd) (simp_all add: opposite_def)


lemma live_prices_sorted_opposite [simp]:
  "live_prices (sorted_opposite ord e) = live_prices (get_book (opposite (side ord)) (marketId ord) e)"
  by (simp add: sorted_opposite_def)









section \<open>Sort order of the books (C4)\<close>




section \<open>Rejected FOK orders (C5)\<close>

text \<open>
  C5, as the code has it. When the pre-scan of the opposite book finds less than the size of
  a FOK order, \<open>processOrder\<close> returns \<open>rejected = true\<close> with the reason, no trades, and the
  order's row with status CANCELLED; it stores no trade and changes no position. The books
  keep their levels and orders, but \<open>getOrderBookWithPrioritySort\<close> has sorted every queue
  of the opposite book of the market by creation time, in place; the engine is unchanged
  exactly when those queues were in creation order already.
\<close>

theorem fok_rejected:
  assumes "otype ord = FOK" and "\<not> canFillOrderCompletely ord (sorted_opposite ord e)"
  shows "fst (processOrder ord (e, st)) =
           Inr \<lparr>r_order = map_option (\<lambda>row. row\<lparr>status := CANCELLED\<rparr>)
                            (find (\<lambda>row. oid row = oid ord) (orders_tbl st)),
                r_trades = [], rejected = Some True,
                rejectReason = Some ''FOK order cannot be completely filled''\<rparr> \<and>
         trades_tbl (snd (snd (processOrder ord (e, st)))) = trades_tbl st \<and>
         positions_tbl (snd (snd (processOrder ord (e, st)))) = positions_tbl st \<and>
         (\<forall>sd m. get_book sd m (fst (snd (processOrder ord (e, st)))) =
            (if sd = opposite (side ord) \<and> m = marketId ord then map time_sort (get_book sd m e)
             else get_book sd m e)) \<and>
         ((\<forall>l \<in> set (get_book (opposite (side ord)) (marketId ord) e).
             sorted (map createdAt (orders l))) \<longrightarrow>
          fst (snd (processOrder ord (e, st))) = e)"
proof -
  let ?sd = "opposite (side ord)" and ?m = "marketId ord"
  note po = processOrder_rejected[OF assms, of st]
  have books: "\<forall>sd m. get_book sd m (fst (snd (processOrder ord (e, st)))) =
            (if sd = ?sd \<and> m = ?m then map time_sort (get_book sd m e) else get_book sd m e)"
    by (simp add: po get_book_sorted_engine) (simp add: sorted_opposite_def)
  have same: "fst (snd (processOrder ord (e, st))) = e"
    if s: "\<forall>l \<in> set (get_book ?sd ?m e). sorted (map createdAt (orders l))"
  proof (cases "book_map ?sd e ?m")
    case None
    then show ?thesis by (simp add: po mutate_book_def)
  next
    case (Some b)
    then have "get_book ?sd ?m e = b" by (simp add: get_book_def)
    with s have "sorted_opposite ord e = b"
      by (simp add: sorted_opposite_def map_time_sort_id)
    with Some show ?thesis by (simp add: po mutate_book_same)
  qed
  show ?thesis using books same
    by (simp add: po updateOrderStatus_fst)
qed

text \<open>The theorem at the FOK test of the suite, where the queues are in creation order.\<close>

theorem fok_rejected_witness:
  "otype fok_in = FOK \<and>
   \<not> canFillOrderCompletely fok_in
       (sorted_opposite fok_in (addToOrderBook fok_s2 (addToOrderBook fok_s1 new_engine))) \<and>
   fst (processOrder fok_in (addToOrderBook fok_s2 (addToOrderBook fok_s1 new_engine),
                             db_with [fok_s1, fok_s2, fok_in])) =
     Inr \<lparr>r_order = Some (fok_in\<lparr>status := CANCELLED\<rparr>), r_trades = [], rejected = Some True,
          rejectReason = Some ''FOK order cannot be completely filled''\<rparr> \<and>
   fst (snd (processOrder fok_in (addToOrderBook fok_s2 (addToOrderBook fok_s1 new_engine),
                             db_with [fok_s1, fok_s2, fok_in]))) =
     addToOrderBook fok_s2 (addToOrderBook fok_s1 new_engine)"
proof -
  let ?e = "addToOrderBook fok_s2 (addToOrderBook fok_s1 new_engine)"
  have h1: "otype fok_in = FOK" by (simp add: fok_in_def createMockOrder_def)
  have h2: "\<not> canFillOrderCompletely fok_in (sorted_opposite fok_in ?e)" by code_simp
  have h3: "\<forall>l \<in> set (get_book (opposite (side fok_in)) (marketId fok_in) ?e).
             sorted (map createdAt (orders l))" by code_simp
  have v: "map_option (\<lambda>row. row\<lparr>status := CANCELLED\<rparr>)
             (find (\<lambda>row. oid row = oid fok_in) (orders_tbl (db_with [fok_s1, fok_s2, fok_in]))) =
           Some (fok_in\<lparr>status := CANCELLED\<rparr>)" by code_simp
  from fok_rejected[OF h1 h2, of "db_with [fok_s1, fok_s2, fok_in]"] h1 h2 h3 v show ?thesis
    by simp
qed

text \<open>
  C5 as the spec states it fails on a warm-loaded book: \<open>loadOrderBook\<close> inserts the newest
  order first, so the queue at 0.50 is \<open>q2, q1\<close>; the rejected FOK order leaves it as
  \<open>q1, q2\<close>.
\<close>

theorem fok_rejected_counterexample:
  "fst (processOrder fok_in (loaded_engine, db_with [old_no, young_no, fok_in])) =
     Inr \<lparr>r_order = Some (fok_in\<lparr>status := CANCELLED\<rparr>), r_trades = [], rejected = Some True,
          rejectReason = Some ''FOK order cannot be completely filled''\<rparr> \<and>
   map oid (book_orders (get_book NO ''m'' loaded_engine)) = [''q2'', ''q1''] \<and>
   map oid (book_orders (get_book NO ''m''
     (fst (snd (processOrder fok_in (loaded_engine, db_with [old_no, young_no, fok_in])))))) =
     [''q1'', ''q2'']"
  by code_simp

section \<open>Orders of size zero (C10)\<close>

text \<open>
  C10. A LIMIT, MARKET or IOC order of size 0 whose row is in the database produces no trade
  (none is returned and none is stored), comes back as its row with status FILLED, and is
  not inserted: every book holds the same orders at the same price levels as before.
\<close>

theorem zero_size_order:
  assumes "osize ord = 0" and "otype ord \<noteq> FOK" and "oid ord \<in> set (map oid (orders_tbl st))"
  shows "\<exists>r row. fst (processOrder ord (e, st)) = Inr r \<and> r_trades r = [] \<and>
           find (\<lambda>x. oid x = oid ord) (orders_tbl st) = Some row \<and>
           r_order r = Some (row\<lparr>status := FILLED\<rparr>) \<and>
           trades_tbl (snd (snd (processOrder ord (e, st)))) = trades_tbl st \<and>
           (\<forall>sd m. map level_ids (get_book sd m (fst (snd (processOrder ord (e, st))))) =
                    map level_ids (get_book sd m e))"
proof -
  let ?book = "sorted_opposite ord e"
  let ?e1 = "mutate_book (opposite (side ord)) (marketId ord) ?book e"
  let ?s0 = "\<lparr>remainingSize = osize ord, orderCumulativeFilled = filled ord, trades = [], store = st, thrown = None\<rparr>"
  have l0: "limit_levels ord ?book ?s0 = (?book, ?s0)"
    using assms(1) by (cases ?book) (simp_all add: loop_unfold)
  have m0: "market_levels ord ?book ?s0 = (?book, ?s0)"
    using assms(1) by (cases ?book) (simp_all add: loop_unfold)
  have rm: "run_match ord ?book st = (?book, ?s0)"
    by (simp add: run_match_def processLimitTypeOrder_def processMarketOrder_def l0 m0)
  have fs: "final_status ord 0 = FILLED"
    using assms(1) by (simp add: final_status_def determineOrderStatus_def)
  have po: "processOrder ord (e, st) =
     (Inr \<lparr>r_order = fst (updateOrderStatus (oid ord) FILLED st), r_trades = [],
           rejected = None, rejectReason = None\<rparr>,
      (mutate_book (opposite (side ord)) (marketId ord) ?book ?e1,
       updateMarketPrices (marketId ord)
         (mutate_book (opposite (side ord)) (marketId ord) ?book ?e1)
         (snd (updateOrderStatus (oid ord) FILLED st))))"
    using assms(1,2) by (simp add: processOrder_matched match_and_book_no_insert rm Let_def fs)
  from updateOrderStatus_Some[OF assms(3), of FILLED] obtain row where
    u: "find (\<lambda>x. oid x = oid ord) (orders_tbl st) = Some row"
       "fst (updateOrderStatus (oid ord) FILLED st) = Some (row\<lparr>status := FILLED\<rparr>)"
    by blast
  have tr: "trades_tbl (snd (snd (processOrder ord (e, st)))) = trades_tbl st"
    by (simp add: po updateMarketPrices_def updateMarketPrices_db_def)
  have ids: "\<forall>sd m. map level_ids (get_book sd m (fst (snd (processOrder ord (e, st))))) =
                    map level_ids (get_book sd m e)"
    using get_book_matched_engine[of _ _ ord e st]
    by (simp add: po rm)
  show ?thesis
    apply (rule exI[of _ "\<lparr>r_order = Some (row\<lparr>status := FILLED\<rparr>), r_trades = [],
           rejected = None, rejectReason = None\<rparr>"])
    apply (rule exI[of _ row])
    using ids u tr by (simp add: po)
qed

text \<open>The theorem at the zero-size order of the test suite.\<close>

theorem zero_size_order_witness:
  "osize zero_order = 0 \<and> otype zero_order \<noteq> FOK \<and>
   oid zero_order \<in> set (map oid (orders_tbl (db_with [zero_order]))) \<and>
   fst (processOrder zero_order (new_engine, db_with [zero_order])) =
     Inr \<lparr>r_order = Some (zero_order\<lparr>status := FILLED\<rparr>), r_trades = [],
          rejected = None, rejectReason = None\<rparr> \<and>
   (\<forall>sd m. map level_ids (get_book sd m (fst (snd (processOrder zero_order (new_engine, db_with [zero_order]))))) =
      map level_ids (get_book sd m new_engine))"
proof -
  have h1: "osize zero_order = 0" by (simp add: zero_order_def createMockOrder_def)
  have h2: "otype zero_order \<noteq> FOK" by (simp add: zero_order_def createMockOrder_def)
  have h3: "oid zero_order \<in> set (map oid (orders_tbl (db_with [zero_order])))"
    by (simp add: db_with_def)
  have v: "fst (processOrder zero_order (new_engine, db_with [zero_order])) =
     Inr \<lparr>r_order = Some (zero_order\<lparr>status := FILLED\<rparr>), r_trades = [],
          rejected = None, rejectReason = None\<rparr>"
    by code_simp
  from zero_size_order[OF h1 h2 h3, of new_engine] h1 h2 h3 v show ?thesis
    by blast
qed

end
